theory Spec2Isabelle
  imports Complex_Main "HOL-Library.Sublist"
begin

section \<open>Python values and the operations the platform uses on them\<close>

text \<open>
  The devices carry the decoded JSON answers of the vendor API as \<open>dict[str, Any]\<close>.
  A value of type \<open>Any\<close> is modelled by the datatype below. A dictionary is an
  association list read with \<open>map_of\<close> (Python dictionaries have distinct keys and
  keep their insertion order). A finite Python float is a rational number, and Python
  compares floats with integers by value; the special floats (nan, inf) are not modelled.
\<close>

datatype json =
    JNone
  | JBool bool
  | JInt int
  | JFloat rat
  | JStr string
  | JList "json list"
  | JDict "(string \<times> json) list"

datatype error = KeyError | TypeError

text \<open>Sequencing of computations that may raise: the first exception wins.\<close>

fun bnd :: "error + 'a \<Rightarrow> ('a \<Rightarrow> error + 'b) \<Rightarrow> error + 'b" where
  "bnd (Inl e) f = Inl e"
| "bnd (Inr x) f = f x"

text \<open>\<open>d[k]\<close> on a dictionary with string keys.\<close>

definition dict_getitem :: "(string \<times> json) list \<Rightarrow> string \<Rightarrow> error + json" where
  "dict_getitem d k = (case map_of d k of None \<Rightarrow> Inl KeyError | Some v \<Rightarrow> Inr v)"

text \<open>\<open>v[k]\<close> with a string \<open>k\<close> on an arbitrary value: only a dictionary can be
  subscripted with a string; lists and strings want integer indices, the other values are
  not subscriptable.\<close>

fun py_getitem :: "json \<Rightarrow> string \<Rightarrow> error + json" where
  "py_getitem (JDict d) k = dict_getitem d k"
| "py_getitem v k = Inl TypeError"

text \<open>\<open>k in v\<close> with a string \<open>k\<close>: key membership on a dictionary, element
  membership on a list, substring test on a string, TypeError on the other values.\<close>

fun is_substring :: "string \<Rightarrow> string \<Rightarrow> bool" where
  "is_substring p [] = (p = [])"
| "is_substring p (c # cs) = (prefix p (c # cs) \<or> is_substring p cs)"

fun py_contains :: "json \<Rightarrow> string \<Rightarrow> error + bool" where
  "py_contains (JDict d) k = Inr (k \<in> fst ` set d)"
| "py_contains (JList xs) k = Inr (JStr k \<in> set xs)"
| "py_contains (JStr s) k = Inr (is_substring k s)"
| "py_contains v k = Inl TypeError"

text \<open>\<open>v == n\<close>, \<open>v < n\<close> and \<open>v > n\<close> for an integer literal \<open>n\<close>. Equality never
  raises; \<open>True\<close> and \<open>False\<close> count as 1 and 0. The order comparisons raise TypeError
  unless the value is a number.\<close>

fun py_eq_int :: "json \<Rightarrow> int \<Rightarrow> bool" where
  "py_eq_int (JInt i) n = (i = n)"
| "py_eq_int (JBool b) n = ((if b then 1 else 0) = n)"
| "py_eq_int (JFloat r) n = (r = of_int n)"
| "py_eq_int v n = False"

fun py_lt_int :: "json \<Rightarrow> int \<Rightarrow> error + bool" where
  "py_lt_int (JInt i) n = Inr (i < n)"
| "py_lt_int (JBool b) n = Inr ((if b then 1 else 0) < n)"
| "py_lt_int (JFloat r) n = Inr (r < of_int n)"
| "py_lt_int v n = Inl TypeError"

fun py_gt_int :: "json \<Rightarrow> int \<Rightarrow> error + bool" where
  "py_gt_int (JInt i) n = Inr (i > n)"
| "py_gt_int (JBool b) n = Inr ((if b then 1 else 0) > n)"
| "py_gt_int (JFloat r) n = Inr (r > of_int n)"
| "py_gt_int v n = Inl TypeError"

text \<open>Truth value of a Python object, as an \<open>if\<close> statement reads it.\<close>

fun py_truthy :: "json \<Rightarrow> bool" where
  "py_truthy JNone = False"
| "py_truthy (JBool b) = b"
| "py_truthy (JInt i) = (i \<noteq> 0)"
| "py_truthy (JFloat r) = (r \<noteq> 0)"
| "py_truthy (JStr s) = (s \<noteq> [])"
| "py_truthy (JList xs) = (xs \<noteq> [])"
| "py_truthy (JDict d) = (d \<noteq> [])"

text \<open>\<open>str(i)\<close> for an integer: the decimal digits, with a minus sign for a negative
  number.\<close>

definition digit_char :: "nat \<Rightarrow> char" where
  "digit_char d = ''0123456789'' ! d"

fun str_nat :: "nat \<Rightarrow> string" where
  "str_nat n = (if n < 10 then [digit_char n] else str_nat (n div 10) @ [digit_char (n mod 10)])"

declare str_nat.simps [simp del]

definition str_int :: "int \<Rightarrow> string" where
  "str_int i = (if i < 0 then CHR ''-'' # str_nat (nat (- i)) else str_nat (nat i))"

section \<open>The coordinator data\<close>

text \<open>
  The device classes of the API client library (\<open>petkit_api.model\<close>): the fields the
  platform reads. The coordinator data holds one dictionary per kind of device, from the
  device key to the device.
\<close>

record Fountain =
  Fountain_id :: int
  Fountain_type :: string
  Fountain_data :: "(string \<times> json) list"

record Feeder =
  Feeder_id :: int
  Feeder_type :: string
  Feeder_data :: "(string \<times> json) list"

record LitterBox =
  LitterBox_id :: int
  LitterBox_type :: string
  LitterBox_device_detail :: "(string \<times> json) list"
  LitterBox_manually_paused :: bool

record PetKitData =
  water_fountains :: "(int \<times> Fountain) list"
  feeders :: "(int \<times> Feeder) list"
  litter_boxes :: "(int \<times> LitterBox) list"

section \<open>The binary sensor entities\<close>

text \<open>One constructor per entity class; the argument is the device key the entity was
  created with (\<open>wf_id\<close>, \<open>feeder_id\<close>, \<open>lb_id\<close>).\<close>

datatype binary_sensor =
    WFWater int
  | FoodLevel int
  | BatteryInstalled int
  | BatteryCharging int
  | LBBinFull int
  | LBLitterLack int
  | LBDeodorizerLack int
  | LBManuallyPaused int
  | FoodLevelHopper1 int
  | FoodLevelHopper2 int
  | CameraStatus int
  | Eating int
  | Feeding int
  | LBBWastePresence int
  | CarePlusSubscription int
  | WFElectricStatus int
  | WFPumpStatus int

subsection \<open>async_setup_entry\<close>

text \<open>The body of the loop over the water fountains.\<close>

definition fountain_sensors :: "int \<Rightarrow> Fountain \<Rightarrow> binary_sensor list" where
  "fountain_sensors wf_id wf_data =
     [WFWater wf_id]
     @ (if Fountain_type wf_data = ''ctw3''
        then [WFElectricStatus wf_id, WFPumpStatus wf_id] else [])"

text \<open>The body of the loop over the feeders.\<close>

definition feeder_sensors :: "int \<Rightarrow> Feeder \<Rightarrow> binary_sensor list" where
  "feeder_sensors feeder_id feeder_data =
     (if Feeder_type feeder_data \<notin> set [''d4s'', ''d4sh'']
      then [FoodLevel feeder_id] else [])
     @ (if Feeder_type feeder_data \<in> set [''d4'', ''d4s'', ''d4sh'']
        then [BatteryInstalled feeder_id] else [])
     @ (if Feeder_type feeder_data \<in> set [''d4s'', ''d4sh'']
        then [FoodLevelHopper1 feeder_id, FoodLevelHopper2 feeder_id] else [])
     @ (if Feeder_type feeder_data = ''d4sh''
        then [CameraStatus feeder_id, Eating feeder_id, Feeding feeder_id,
              CarePlusSubscription feeder_id] else [])
     @ (if Feeder_type feeder_data = ''d3''
        then [BatteryCharging feeder_id] else [])"

text \<open>The body of the loop over the litter boxes. The last test subscripts
  \<open>device_detail\<close> with \<open>"state"\<close> and applies \<open>in\<close> to the result: either may
  raise, and the exception leaves \<open>async_setup_entry\<close>.\<close>

definition litter_box_sensors :: "int \<Rightarrow> LitterBox \<Rightarrow> error + binary_sensor list" where
  "litter_box_sensors lb_id lb_data =
     (let s1 = (if LitterBox_type lb_data \<in> set [''t3'', ''t4'', ''t6'']
                then [LBBinFull lb_id, LBLitterLack lb_id] else []);
          s2 = (if LitterBox_type lb_data = ''t3''
                   \<or> ''k3Device'' \<in> fst ` set (LitterBox_device_detail lb_data)
                then [LBDeodorizerLack lb_id] else []);
          s3 = (if LitterBox_type lb_data = ''t3'' then [LBManuallyPaused lb_id] else [])
      in bnd (dict_getitem (LitterBox_device_detail lb_data) ''state'') (\<lambda>st.
         bnd (py_contains st ''boxState'') (\<lambda>b.
         Inr (s1 @ s2 @ s3 @ (if b then [LBBWastePresence lb_id] else [])))))"

text \<open>The three loops, each extending the list \<open>binary_sensors\<close> built so far.\<close>

fun fountain_loop :: "(int \<times> Fountain) list \<Rightarrow> binary_sensor list \<Rightarrow> binary_sensor list" where
  "fountain_loop [] binary_sensors = binary_sensors"
| "fountain_loop ((wf_id, wf_data) # rest) binary_sensors =
     fountain_loop rest (binary_sensors @ fountain_sensors wf_id wf_data)"

fun feeder_loop :: "(int \<times> Feeder) list \<Rightarrow> binary_sensor list \<Rightarrow> binary_sensor list" where
  "feeder_loop [] binary_sensors = binary_sensors"
| "feeder_loop ((feeder_id, feeder_data) # rest) binary_sensors =
     feeder_loop rest (binary_sensors @ feeder_sensors feeder_id feeder_data)"

fun litter_box_loop ::
  "(int \<times> LitterBox) list \<Rightarrow> binary_sensor list \<Rightarrow> error + binary_sensor list" where
  "litter_box_loop [] binary_sensors = Inr binary_sensors"
| "litter_box_loop ((lb_id, lb_data) # rest) binary_sensors =
     bnd (litter_box_sensors lb_id lb_data) (\<lambda>s. litter_box_loop rest (binary_sensors @ s))"

text \<open>The result is the list handed to \<open>async_add_entities\<close>, or the exception that
  left the function before that call.\<close>

definition async_setup_entry :: "PetKitData \<Rightarrow> error + binary_sensor list" where
  "async_setup_entry data =
     litter_box_loop (litter_boxes data)
       (feeder_loop (feeders data)
         (fountain_loop (water_fountains data) []))"


subsection \<open>The device an entity reads\<close>

text \<open>The properties \<open>wf_data\<close>, \<open>feeder_data\<close> and \<open>lb_data\<close> of the entity
  classes: a dictionary lookup with the key the entity was created with, KeyError when
  the coordinator data no longer holds the device.\<close>

definition wf_data :: "PetKitData \<Rightarrow> int \<Rightarrow> error + Fountain" where
  "wf_data data wf_id =
     (case map_of (water_fountains data) wf_id of None \<Rightarrow> Inl KeyError | Some d \<Rightarrow> Inr d)"

definition feeder_data :: "PetKitData \<Rightarrow> int \<Rightarrow> error + Feeder" where
  "feeder_data data feeder_id =
     (case map_of (feeders data) feeder_id of None \<Rightarrow> Inl KeyError | Some d \<Rightarrow> Inr d)"

definition lb_data :: "PetKitData \<Rightarrow> int \<Rightarrow> error + LitterBox" where
  "lb_data data lb_id =
     (case map_of (litter_boxes data) lb_id of None \<Rightarrow> Inl KeyError | Some d \<Rightarrow> Inr d)"

text \<open>The nested reads \<open>data["state"][f]\<close>, \<open>data["status"][f]\<close>,
  \<open>data["cloudProduct"][f]\<close> and \<open>device_detail["state"][f]\<close>.\<close>

definition nested :: "(string \<times> json) list \<Rightarrow> string \<Rightarrow> string \<Rightarrow> error + json" where
  "nested d outer f = bnd (dict_getitem d outer) (\<lambda>st. py_getitem st f)"

subsection \<open>is_on\<close>

text \<open>One equation per class, in the order of the source file. In \<open>FoodLevel\<close> the two
  tests on the type are complementary, so the end of the method (an implicit
  \<open>return None\<close>) is never reached.\<close>

fun is_on :: "PetKitData \<Rightarrow> binary_sensor \<Rightarrow> error + json" where
  "is_on data (WFWater wf_id) =
     bnd (wf_data data wf_id) (\<lambda>wf.
     bnd (dict_getitem (Fountain_data wf) ''lackWarning'') (\<lambda>v.
     if py_eq_int v 1 then Inr (JBool True) else Inr (JBool False)))"
| "is_on data (FoodLevel feeder_id) =
     bnd (feeder_data data feeder_id) (\<lambda>fd.
     if Feeder_type fd = ''d3'' then
       bnd (nested (Feeder_data fd) ''state'' ''food'') (\<lambda>v.
       bnd (py_lt_int v 2) (\<lambda>b.
       if b then Inr (JBool True) else Inr (JBool False)))
     else
       bnd (nested (Feeder_data fd) ''state'' ''food'') (\<lambda>v.
       if py_eq_int v 0 then Inr (JBool True) else Inr (JBool False)))"
| "is_on data (BatteryInstalled feeder_id) =
     bnd (feeder_data data feeder_id) (\<lambda>fd.
     bnd (nested (Feeder_data fd) ''state'' ''batteryPower'') (\<lambda>v.
     if py_eq_int v 1 then Inr (JBool True) else Inr (JBool False)))"
| "is_on data (BatteryCharging feeder_id) =
     bnd (feeder_data data feeder_id) (\<lambda>fd.
     bnd (nested (Feeder_data fd) ''state'' ''charge'') (\<lambda>v.
     bnd (py_gt_int v 1) (\<lambda>b.
     if b then Inr (JBool True) else Inr (JBool False))))"
| "is_on data (LBBinFull lb_id) =
     bnd (lb_data data lb_id) (\<lambda>lb.
     nested (LitterBox_device_detail lb) ''state'' ''boxFull'')"
| "is_on data (LBLitterLack lb_id) =
     bnd (lb_data data lb_id) (\<lambda>lb.
     nested (LitterBox_device_detail lb) ''state'' ''sandLack'')"
| "is_on data (LBDeodorizerLack lb_id) =
     bnd (lb_data data lb_id) (\<lambda>lb.
     nested (LitterBox_device_detail lb) ''state'' ''liquidLack'')"
| "is_on data (LBManuallyPaused lb_id) =
     bnd (lb_data data lb_id) (\<lambda>lb.
     Inr (JBool (LitterBox_manually_paused lb)))"
| "is_on data (FoodLevelHopper1 feeder_id) =
     bnd (feeder_data data feeder_id) (\<lambda>fd.
     bnd (nested (Feeder_data fd) ''state'' ''food1'') (\<lambda>v.
     bnd (py_lt_int v 1) (\<lambda>b.
     if b then Inr (JBool True) else Inr (JBool False))))"
| "is_on data (FoodLevelHopper2 feeder_id) =
     bnd (feeder_data data feeder_id) (\<lambda>fd.
     bnd (nested (Feeder_data fd) ''state'' ''food2'') (\<lambda>v.
     bnd (py_lt_int v 1) (\<lambda>b.
     if b then Inr (JBool True) else Inr (JBool False))))"
| "is_on data (CameraStatus feeder_id) =
     bnd (feeder_data data feeder_id) (\<lambda>fd.
     bnd (nested (Feeder_data fd) ''state'' ''cameraStatus'') (\<lambda>v.
     if py_eq_int v 1 then Inr (JBool True) else Inr (JBool False)))"
| "is_on data (Eating feeder_id) =
     bnd (feeder_data data feeder_id) (\<lambda>fd.
     bnd (nested (Feeder_data fd) ''state'' ''eating'') (\<lambda>v.
     if py_eq_int v 1 then Inr (JBool True) else Inr (JBool False)))"
| "is_on data (Feeding feeder_id) =
     bnd (feeder_data data feeder_id) (\<lambda>fd.
     bnd (nested (Feeder_data fd) ''state'' ''feeding'') (\<lambda>v.
     if py_eq_int v 1 then Inr (JBool True) else Inr (JBool False)))"
| "is_on data (LBBWastePresence lb_id) =
     bnd (lb_data data lb_id) (\<lambda>lb.
     bnd (nested (LitterBox_device_detail lb) ''state'' ''boxState'') (\<lambda>v.
     if py_eq_int v 1 then Inr (JBool False) else Inr (JBool True)))"
| "is_on data (CarePlusSubscription feeder_id) =
     bnd (feeder_data data feeder_id) (\<lambda>fd.
     bnd (nested (Feeder_data fd) ''cloudProduct'' ''subscribe'') (\<lambda>v.
     Inr (JBool (py_eq_int v 1))))"
| "is_on data (WFElectricStatus wf_id) =
     bnd (wf_data data wf_id) (\<lambda>wf.
     bnd (nested (Fountain_data wf) ''status'' ''electricStatus'') (\<lambda>v.
     bnd (py_gt_int v 0) (\<lambda>b. Inr (JBool b))))"
| "is_on data (WFPumpStatus wf_id) =
     bnd (wf_data data wf_id) (\<lambda>wf.
     bnd (nested (Fountain_data wf) ''status'' ''runStatus'') (\<lambda>v.
     Inr (JBool (py_eq_int v 1))))"

subsection \<open>icon\<close>

fun icon :: "PetKitData \<Rightarrow> binary_sensor \<Rightarrow> error + string" where
  "icon data (WFWater wf_id) =
     bnd (wf_data data wf_id) (\<lambda>wf.
     bnd (dict_getitem (Fountain_data wf) ''lackWarning'') (\<lambda>v.
     if py_eq_int v 1 then Inr ''mdi:water-alert'' else Inr ''mdi:water''))"
| "icon data (FoodLevel feeder_id) =
     bnd (feeder_data data feeder_id) (\<lambda>fd.
     if Feeder_type fd = ''d3'' then
       bnd (nested (Feeder_data fd) ''state'' ''food'') (\<lambda>v.
       bnd (py_lt_int v 2) (\<lambda>b.
       if b then Inr ''mdi:food-drumstick-off'' else Inr ''mdi:food-drumstick''))
     else
       bnd (nested (Feeder_data fd) ''state'' ''food'') (\<lambda>v.
       if py_eq_int v 0 then Inr ''mdi:food-drumstick-off'' else Inr ''mdi:food-drumstick''))"
| "icon data (BatteryInstalled feeder_id) = Inr ''mdi:battery''"
| "icon data (BatteryCharging feeder_id) = Inr ''mdi:battery''"
| "icon data (LBBinFull lb_id) = Inr ''mdi:delete''"
| "icon data (LBLitterLack lb_id) = Inr ''mdi:landslide''"
| "icon data (LBDeodorizerLack lb_id) =
     bnd (lb_data data lb_id) (\<lambda>lb.
     if ''k3Device'' \<in> fst ` set (LitterBox_device_detail lb)
     then Inr ''mdi:cup'' else Inr ''mdi:spray'')"
| "icon data (LBManuallyPaused lb_id) = Inr ''mdi:pause''"
| "icon data (FoodLevelHopper1 feeder_id) =
     bnd (feeder_data data feeder_id) (\<lambda>fd.
     bnd (nested (Feeder_data fd) ''state'' ''food1'') (\<lambda>v.
     if py_eq_int v 0 then Inr ''mdi:food-drumstick-off'' else Inr ''mdi:food-drumstick''))"
| "icon data (FoodLevelHopper2 feeder_id) =
     bnd (feeder_data data feeder_id) (\<lambda>fd.
     bnd (nested (Feeder_data fd) ''state'' ''food2'') (\<lambda>v.
     if py_eq_int v 0 then Inr ''mdi:food-drumstick-off'' else Inr ''mdi:food-drumstick''))"
| "icon data (CameraStatus feeder_id) =
     bnd (feeder_data data feeder_id) (\<lambda>fd.
     bnd (nested (Feeder_data fd) ''state'' ''cameraStatus'') (\<lambda>v.
     if py_eq_int v 1 then Inr ''mdi:cctv'' else Inr ''mdi:cctv-off''))"
| "icon data (Eating feeder_id) = Inr ''mdi:silverware-fork-knife''"
| "icon data (Feeding feeder_id) = Inr ''mdi:shaker-outline''"
| "icon data (LBBWastePresence lb_id) =
     bnd (lb_data data lb_id) (\<lambda>lb.
     bnd (nested (LitterBox_device_detail lb) ''state'' ''boxState'') (\<lambda>v.
     if py_eq_int v 1 then Inr ''mdi:inbox'' else Inr ''mdi:inbox-remove''))"
| "icon data (CarePlusSubscription feeder_id) =
     bnd (feeder_data data feeder_id) (\<lambda>fd.
     bnd (nested (Feeder_data fd) ''cloudProduct'' ''subscribe'') (\<lambda>v.
     if py_eq_int v 1 then Inr ''mdi:check-circle'' else Inr ''mdi:cancel''))"
| "icon data (WFElectricStatus wf_id) =
     bnd (is_on data (WFElectricStatus wf_id)) (\<lambda>on.
     if py_truthy on then Inr ''mdi:power-plug'' else Inr ''mdi:power-plug-off'')"
| "icon data (WFPumpStatus wf_id) =
     bnd (is_on data (WFPumpStatus wf_id)) (\<lambda>on.
     if py_truthy on then Inr ''mdi:water-pump'' else Inr ''mdi:water-pump-off'')"

subsection \<open>device_class and entity_category\<close>

text \<open>The members of the platform's enumerations that the entity classes return.
  \<open>None\<close> stands for a class that does not define the property: the entity then has
  the host framework's default, which is no device class and no category.\<close>

datatype BinarySensorDeviceClass = PROBLEM | BATTERY_CHARGING | OCCUPANCY | POWER

datatype EntityCategory = CONFIG | DIAGNOSTIC

fun device_class :: "binary_sensor \<Rightarrow> BinarySensorDeviceClass option" where
  "device_class (WFWater wf_id) = Some PROBLEM"
| "device_class (FoodLevel feeder_id) = Some PROBLEM"
| "device_class (BatteryInstalled feeder_id) = None"
| "device_class (BatteryCharging feeder_id) = Some BATTERY_CHARGING"
| "device_class (LBBinFull lb_id) = Some PROBLEM"
| "device_class (LBLitterLack lb_id) = Some PROBLEM"
| "device_class (LBDeodorizerLack lb_id) = Some PROBLEM"
| "device_class (LBManuallyPaused lb_id) = None"
| "device_class (FoodLevelHopper1 feeder_id) = Some PROBLEM"
| "device_class (FoodLevelHopper2 feeder_id) = Some PROBLEM"
| "device_class (CameraStatus feeder_id) = None"
| "device_class (Eating feeder_id) = Some OCCUPANCY"
| "device_class (Feeding feeder_id) = Some OCCUPANCY"
| "device_class (LBBWastePresence lb_id) = Some PROBLEM"
| "device_class (CarePlusSubscription feeder_id) = None"
| "device_class (WFElectricStatus wf_id) = Some POWER"
| "device_class (WFPumpStatus wf_id) = Some POWER"

fun entity_category :: "binary_sensor \<Rightarrow> EntityCategory option" where
  "entity_category (BatteryInstalled feeder_id) = Some DIAGNOSTIC"
| "entity_category (BatteryCharging feeder_id) = Some DIAGNOSTIC"
| "entity_category (LBManuallyPaused lb_id) = Some DIAGNOSTIC"
| "entity_category (CameraStatus feeder_id) = Some DIAGNOSTIC"
| "entity_category (CarePlusSubscription feeder_id) = Some DIAGNOSTIC"
| "entity_category e = None"

subsection \<open>translation_key, unique_id and available\<close>

fun translation_key :: "PetKitData \<Rightarrow> binary_sensor \<Rightarrow> error + string" where
  "translation_key data (WFWater wf_id) = Inr ''water_level''"
| "translation_key data (FoodLevel feeder_id) = Inr ''food_level''"
| "translation_key data (BatteryInstalled feeder_id) = Inr ''battery_installed''"
| "translation_key data (BatteryCharging feeder_id) = Inr ''battery''"
| "translation_key data (LBBinFull lb_id) = Inr ''wastebin''"
| "translation_key data (LBLitterLack lb_id) = Inr ''litter''"
| "translation_key data (LBDeodorizerLack lb_id) =
     bnd (lb_data data lb_id) (\<lambda>lb.
     if ''k3Device'' \<in> fst ` set (LitterBox_device_detail lb)
     then Inr ''pura_air_liquid'' else Inr ''deodorizer'')"
| "translation_key data (LBManuallyPaused lb_id) = Inr ''manually_paused''"
| "translation_key data (FoodLevelHopper1 feeder_id) = Inr ''food_level_hopper_one''"
| "translation_key data (FoodLevelHopper2 feeder_id) = Inr ''food_level_hopper_two''"
| "translation_key data (CameraStatus feeder_id) = Inr ''camera_status''"
| "translation_key data (Eating feeder_id) = Inr ''eating''"
| "translation_key data (Feeding feeder_id) = Inr ''feeding''"
| "translation_key data (LBBWastePresence lb_id) = Inr ''waste_bin_presence''"
| "translation_key data (CarePlusSubscription feeder_id) = Inr ''care_plus_subscription''"
| "translation_key data (WFElectricStatus wf_id) = Inr ''electric_status''"
| "translation_key data (WFPumpStatus wf_id) = Inr ''pump_status''"

text \<open>The suffix each class appends to \<open>str(id)\<close>.\<close>

fun uid_suffix :: "binary_sensor \<Rightarrow> string" where
  "uid_suffix (WFWater wf_id) = ''_water_level''"
| "uid_suffix (FoodLevel feeder_id) = ''_food_level''"
| "uid_suffix (BatteryInstalled feeder_id) = ''_battery_installed''"
| "uid_suffix (BatteryCharging feeder_id) = ''_battery_charging''"
| "uid_suffix (LBBinFull lb_id) = ''_wastebin''"
| "uid_suffix (LBLitterLack lb_id) = ''_litter_lack''"
| "uid_suffix (LBDeodorizerLack lb_id) = ''_deodorizer_lack''"
| "uid_suffix (LBManuallyPaused lb_id) = ''_manually_paused''"
| "uid_suffix (FoodLevelHopper1 feeder_id) = ''_food_level_hopper_1''"
| "uid_suffix (FoodLevelHopper2 feeder_id) = ''_food_level_hopper_2''"
| "uid_suffix (CameraStatus feeder_id) = ''_camera_status''"
| "uid_suffix (Eating feeder_id) = ''_eating''"
| "uid_suffix (Feeding feeder_id) = ''_feeding''"
| "uid_suffix (LBBWastePresence lb_id) = ''_wastebin_presence''"
| "uid_suffix (CarePlusSubscription feeder_id) = ''_care_plus_subscription''"
| "uid_suffix (WFElectricStatus wf_id) = ''_electric_status''"
| "uid_suffix (WFPumpStatus wf_id) = ''_pump_status''"

text \<open>The \<open>id\<close> attribute of the device the entity reads.\<close>

fun device_id :: "PetKitData \<Rightarrow> binary_sensor \<Rightarrow> error + int" where
  "device_id data (WFWater k) = bnd (wf_data data k) (\<lambda>d. Inr (Fountain_id d))"
| "device_id data (FoodLevel k) = bnd (feeder_data data k) (\<lambda>d. Inr (Feeder_id d))"
| "device_id data (BatteryInstalled k) = bnd (feeder_data data k) (\<lambda>d. Inr (Feeder_id d))"
| "device_id data (BatteryCharging k) = bnd (feeder_data data k) (\<lambda>d. Inr (Feeder_id d))"
| "device_id data (LBBinFull k) = bnd (lb_data data k) (\<lambda>d. Inr (LitterBox_id d))"
| "device_id data (LBLitterLack k) = bnd (lb_data data k) (\<lambda>d. Inr (LitterBox_id d))"
| "device_id data (LBDeodorizerLack k) = bnd (lb_data data k) (\<lambda>d. Inr (LitterBox_id d))"
| "device_id data (LBManuallyPaused k) = bnd (lb_data data k) (\<lambda>d. Inr (LitterBox_id d))"
| "device_id data (FoodLevelHopper1 k) = bnd (feeder_data data k) (\<lambda>d. Inr (Feeder_id d))"
| "device_id data (FoodLevelHopper2 k) = bnd (feeder_data data k) (\<lambda>d. Inr (Feeder_id d))"
| "device_id data (CameraStatus k) = bnd (feeder_data data k) (\<lambda>d. Inr (Feeder_id d))"
| "device_id data (Eating k) = bnd (feeder_data data k) (\<lambda>d. Inr (Feeder_id d))"
| "device_id data (Feeding k) = bnd (feeder_data data k) (\<lambda>d. Inr (Feeder_id d))"
| "device_id data (LBBWastePresence k) = bnd (lb_data data k) (\<lambda>d. Inr (LitterBox_id d))"
| "device_id data (CarePlusSubscription k) = bnd (feeder_data data k) (\<lambda>d. Inr (Feeder_id d))"
| "device_id data (WFElectricStatus k) = bnd (wf_data data k) (\<lambda>d. Inr (Fountain_id d))"
| "device_id data (WFPumpStatus k) = bnd (wf_data data k) (\<lambda>d. Inr (Fountain_id d))"

text \<open>Every class computes \<open>str(self.<device>.id) + suffix\<close>.\<close>

definition unique_id :: "PetKitData \<Rightarrow> binary_sensor \<Rightarrow> error + string" where
  "unique_id data e = bnd (device_id data e) (\<lambda>i. Inr (str_int i @ uid_suffix e))"

text \<open>Only \<open>LBDeodorizerLack\<close> defines \<open>available\<close>; \<open>None\<close> stands for the classes
  that leave it to the host framework.\<close>

fun available :: "PetKitData \<Rightarrow> binary_sensor \<Rightarrow> (error + bool) option" where
  "available data (LBDeodorizerLack lb_id) = Some (
     bnd (lb_data data lb_id) (\<lambda>lb.
     if LitterBox_type lb = ''t4'' then
       (if ''k3Device'' \<in> fst ` set (LitterBox_device_detail lb) then Inr True else Inr False)
     else Inr True))"
| "available data e = None"

subsection \<open>The key of an entity\<close>

text \<open>The device key stored by the constructor of each class (\<open>self.wf_id\<close>,
  \<open>self.feeder_id\<close>, \<open>self.lb_id\<close>).\<close>

fun sensor_key :: "binary_sensor \<Rightarrow> int" where
  "sensor_key (WFWater k) = k"
| "sensor_key (FoodLevel k) = k"
| "sensor_key (BatteryInstalled k) = k"
| "sensor_key (BatteryCharging k) = k"
| "sensor_key (LBBinFull k) = k"
| "sensor_key (LBLitterLack k) = k"
| "sensor_key (LBDeodorizerLack k) = k"
| "sensor_key (LBManuallyPaused k) = k"
| "sensor_key (FoodLevelHopper1 k) = k"
| "sensor_key (FoodLevelHopper2 k) = k"
| "sensor_key (CameraStatus k) = k"
| "sensor_key (Eating k) = k"
| "sensor_key (Feeding k) = k"
| "sensor_key (LBBWastePresence k) = k"
| "sensor_key (CarePlusSubscription k) = k"
| "sensor_key (WFElectricStatus k) = k"
| "sensor_key (WFPumpStatus k) = k"

subsection \<open>What is_on reads\<close>

text \<open>The value \<open>is_on\<close> reads: in every class one field of the device's data (in
  \<open>LBManuallyPaused\<close> the attribute \<open>manually_paused\<close> of the device).\<close>

fun is_on_reads :: "PetKitData \<Rightarrow> binary_sensor \<Rightarrow> error + json" where
  "is_on_reads data (WFWater wf_id) =
     bnd (wf_data data wf_id) (\<lambda>wf. dict_getitem (Fountain_data wf) ''lackWarning'')"
| "is_on_reads data (FoodLevel feeder_id) =
     bnd (feeder_data data feeder_id) (\<lambda>fd. nested (Feeder_data fd) ''state'' ''food'')"
| "is_on_reads data (BatteryInstalled feeder_id) =
     bnd (feeder_data data feeder_id) (\<lambda>fd. nested (Feeder_data fd) ''state'' ''batteryPower'')"
| "is_on_reads data (BatteryCharging feeder_id) =
     bnd (feeder_data data feeder_id) (\<lambda>fd. nested (Feeder_data fd) ''state'' ''charge'')"
| "is_on_reads data (LBBinFull lb_id) =
     bnd (lb_data data lb_id) (\<lambda>lb. nested (LitterBox_device_detail lb) ''state'' ''boxFull'')"
| "is_on_reads data (LBLitterLack lb_id) =
     bnd (lb_data data lb_id) (\<lambda>lb. nested (LitterBox_device_detail lb) ''state'' ''sandLack'')"
| "is_on_reads data (LBDeodorizerLack lb_id) =
     bnd (lb_data data lb_id) (\<lambda>lb. nested (LitterBox_device_detail lb) ''state'' ''liquidLack'')"
| "is_on_reads data (LBManuallyPaused lb_id) =
     bnd (lb_data data lb_id) (\<lambda>lb. Inr (JBool (LitterBox_manually_paused lb)))"
| "is_on_reads data (FoodLevelHopper1 feeder_id) =
     bnd (feeder_data data feeder_id) (\<lambda>fd. nested (Feeder_data fd) ''state'' ''food1'')"
| "is_on_reads data (FoodLevelHopper2 feeder_id) =
     bnd (feeder_data data feeder_id) (\<lambda>fd. nested (Feeder_data fd) ''state'' ''food2'')"
| "is_on_reads data (CameraStatus feeder_id) =
     bnd (feeder_data data feeder_id) (\<lambda>fd. nested (Feeder_data fd) ''state'' ''cameraStatus'')"
| "is_on_reads data (Eating feeder_id) =
     bnd (feeder_data data feeder_id) (\<lambda>fd. nested (Feeder_data fd) ''state'' ''eating'')"
| "is_on_reads data (Feeding feeder_id) =
     bnd (feeder_data data feeder_id) (\<lambda>fd. nested (Feeder_data fd) ''state'' ''feeding'')"
| "is_on_reads data (LBBWastePresence lb_id) =
     bnd (lb_data data lb_id) (\<lambda>lb. nested (LitterBox_device_detail lb) ''state'' ''boxState'')"
| "is_on_reads data (CarePlusSubscription feeder_id) =
     bnd (feeder_data data feeder_id) (\<lambda>fd. nested (Feeder_data fd) ''cloudProduct'' ''subscribe'')"
| "is_on_reads data (WFElectricStatus wf_id) =
     bnd (wf_data data wf_id) (\<lambda>wf. nested (Fountain_data wf) ''status'' ''electricStatus'')"
| "is_on_reads data (WFPumpStatus wf_id) =
     bnd (wf_data data wf_id) (\<lambda>wf. nested (Fountain_data wf) ''status'' ''runStatus'')"

text \<open>Whether \<open>is_on\<close> compares what it reads with \<open><\<close> or \<open>>\<close> (\<open>FoodLevel\<close> does
  so for a feeder of type d3 only), and whether it returns what it reads as it is.\<close>

fun is_on_orders :: "PetKitData \<Rightarrow> binary_sensor \<Rightarrow> bool" where
  "is_on_orders data (FoodLevel feeder_id) =
     (case feeder_data data feeder_id of Inl e \<Rightarrow> False | Inr fd \<Rightarrow> Feeder_type fd = ''d3'')"
| "is_on_orders data (BatteryCharging feeder_id) = True"
| "is_on_orders data (FoodLevelHopper1 feeder_id) = True"
| "is_on_orders data (FoodLevelHopper2 feeder_id) = True"
| "is_on_orders data (WFElectricStatus wf_id) = True"
| "is_on_orders data e = False"

fun is_on_returns_field :: "binary_sensor \<Rightarrow> bool" where
  "is_on_returns_field (LBBinFull lb_id) = True"
| "is_on_returns_field (LBLitterLack lb_id) = True"
| "is_on_returns_field (LBDeodorizerLack lb_id) = True"
| "is_on_returns_field e = False"

fun is_number :: "json \<Rightarrow> bool" where
  "is_number (JInt i) = True"
| "is_number (JBool b) = True"
| "is_number (JFloat r) = True"
| "is_number v = False"

section \<open>Example coordinator data\<close>

text \<open>A household with one device of each kind that matters below: a fountain of type
  ctw3, a camera feeder (d4sh), a feeder of type d3, and a litter box of type t3 with a
  Pura Air and a waste bin sensor.\<close>

definition home_fountain :: Fountain where
  "home_fountain = \<lparr>Fountain_id = 101, Fountain_type = ''ctw3'',
     Fountain_data = [(''name'', JStr ''fountain''), (''typeCode'', JInt 2),
       (''hardware'', JInt 1), (''firmware'', JStr ''1.0''), (''lackWarning'', JInt 0),
       (''status'', JDict [(''electricStatus'', JInt 1), (''runStatus'', JInt 1)])]\<rparr>"

definition home_feeder_d4sh :: Feeder where
  "home_feeder_d4sh = \<lparr>Feeder_id = 102, Feeder_type = ''d4sh'',
     Feeder_data = [(''name'', JStr ''camera feeder''), (''firmware'', JStr ''2.1''),
       (''state'', JDict [(''batteryPower'', JInt 1), (''food1'', JInt 1), (''food2'', JInt 0),
          (''cameraStatus'', JInt 1), (''eating'', JInt 0), (''feeding'', JInt 0)]),
       (''cloudProduct'', JDict [(''subscribe'', JInt 1)])]\<rparr>"

definition home_feeder_d3 :: Feeder where
  "home_feeder_d3 = \<lparr>Feeder_id = 103, Feeder_type = ''d3'',
     Feeder_data = [(''name'', JStr ''bowl''), (''firmware'', JStr ''1.4''),
       (''state'', JDict [(''food'', JInt 1), (''charge'', JInt 2)])]\<rparr>"

definition home_litter_box :: LitterBox where
  "home_litter_box = \<lparr>LitterBox_id = 104, LitterBox_type = ''t3'',
     LitterBox_device_detail = [(''name'', JStr ''litter box''), (''firmware'', JStr ''3.0''),
       (''k3Device'', JDict []),
       (''state'', JDict [(''boxFull'', JBool False), (''sandLack'', JBool False),
          (''liquidLack'', JBool True), (''boxState'', JInt 1)])],
     LitterBox_manually_paused = False\<rparr>"

definition home :: PetKitData where
  "home = \<lparr>water_fountains = [(1, home_fountain)],
            feeders = [(2, home_feeder_d4sh), (3, home_feeder_d3)],
            litter_boxes = [(4, home_litter_box)]\<rparr>"

text \<open>A feeder with two hoppers (d4s) whose API answer reports negative levels.\<close>

definition hopper_feeder :: Feeder where
  "hopper_feeder = \<lparr>Feeder_id = 105, Feeder_type = ''d4s'',
     Feeder_data = [(''name'', JStr ''twin feeder''), (''firmware'', JStr ''1.0''),
       (''state'', JDict [(''batteryPower'', JInt 0), (''food1'', JInt (- 1)),
          (''food2'', JInt (- 1))])]\<rparr>"

definition hopper_home :: PetKitData where
  "hopper_home = \<lparr>water_fountains = [], feeders = [(5, hopper_feeder)], litter_boxes = []\<rparr>"

text \<open>A litter box whose state reports the full bin as the number 1, and a feeder of
  type d3 whose food level arrives as a string.\<close>

definition numeric_litter_box :: LitterBox where
  "numeric_litter_box = \<lparr>LitterBox_id = 106, LitterBox_type = ''t4'',
     LitterBox_device_detail = [(''name'', JStr ''litter box''), (''firmware'', JStr ''3.0''),
       (''state'', JDict [(''boxFull'', JInt 1), (''sandLack'', JInt 0)])],
     LitterBox_manually_paused = False\<rparr>"

definition text_feeder :: Feeder where
  "text_feeder = \<lparr>Feeder_id = 107, Feeder_type = ''d3'',
     Feeder_data = [(''name'', JStr ''bowl''), (''firmware'', JStr ''1.4''),
       (''state'', JDict [(''food'', JStr ''1''), (''charge'', JInt 2)])]\<rparr>"

definition untyped_home :: PetKitData where
  "untyped_home = \<lparr>water_fountains = [], feeders = [(7, text_feeder)],
                    litter_boxes = [(6, numeric_litter_box)]\<rparr>"

text \<open>A fountain next to a litter box whose \<open>device_detail\<close> has no \<open>state\<close>.\<close>

definition bare_litter_box :: LitterBox where
  "bare_litter_box = \<lparr>LitterBox_id = 108, LitterBox_type = ''t3'',
     LitterBox_device_detail = [(''name'', JStr ''litter box''), (''firmware'', JStr ''3.0'')],
     LitterBox_manually_paused = False\<rparr>"

definition bare_home :: PetKitData where
  "bare_home = \<lparr>water_fountains = [(1, home_fountain)], feeders = [],
                 litter_boxes = [(8, bare_litter_box)]\<rparr>"

text \<open>A feeder of type d4 whose state holds no \<open>food\<close>.\<close>

definition stateless_feeder :: Feeder where
  "stateless_feeder = \<lparr>Feeder_id = 109, Feeder_type = ''d4'',
     Feeder_data = [(''name'', JStr ''feeder''), (''firmware'', JStr ''1.0''),
       (''state'', JDict [(''batteryPower'', JInt 1)])]\<rparr>"

definition stateless_home :: PetKitData where
  "stateless_home = \<lparr>water_fountains = [], feeders = [(9, stateless_feeder)],
                      litter_boxes = []\<rparr>"

section \<open>Evaluation on concrete data\<close>

lemmas lookups = wf_data_def feeder_data_def lb_data_def nested_def dict_getitem_def

lemmas home_defs = home_def home_fountain_def home_feeder_d4sh_def home_feeder_d3_def
  home_litter_box_def

section \<open>The food level sensor\<close>

text \<open>
  Claim C3 as stated (for every feeder \<open>FoodLevel.is_on\<close> decides by \<open>food < 2\<close> on
  type d3 and by \<open>food == 0\<close> otherwise, and the icon is \<open>mdi:food-drumstick-off\<close> in
  those cases and \<open>mdi:food-drumstick\<close> otherwise) fails on feeders for which
  \<open>async_setup_entry\<close> creates a \<open>FoodLevel\<close> entity: on a feeder of type d3 whose
  \<open>food\<close> is a string the comparison raises TypeError, and on a feeder whose state holds
  no \<open>food\<close> the subscript raises KeyError; \<open>icon\<close> then returns neither icon and
  \<open>is_on\<close> returns nothing.
\<close>

theorem FoodLevel_counterexample:
  "async_setup_entry untyped_home
     = Inr [FoodLevel 7, BatteryCharging 7, LBBinFull 6, LBLitterLack 6]
   \<and> Feeder_type text_feeder = ''d3''
   \<and> nested (Feeder_data text_feeder) ''state'' ''food'' = Inr (JStr ''1'')
   \<and> is_on untyped_home (FoodLevel 7) = Inl TypeError
   \<and> icon untyped_home (FoodLevel 7) = Inl TypeError
   \<and> async_setup_entry stateless_home = Inr [FoodLevel 9, BatteryInstalled 9]
   \<and> is_on stateless_home (FoodLevel 9) = Inl KeyError
   \<and> icon stateless_home (FoodLevel 9) = Inl KeyError"
  by (simp add: async_setup_entry_def untyped_home_def numeric_litter_box_def text_feeder_def
      stateless_home_def stateless_feeder_def feeder_sensors_def litter_box_sensors_def
      lookups)

text \<open>
  Claim C3, amended. For every feeder whose state holds \<open>food\<close>, and on type d3 holds
  a number there, \<open>FoodLevel.is_on\<close> returns True if \<open>food < 2\<close> on type d3, respectively
  \<open>food == 0\<close> on any other type, and False otherwise; \<open>FoodLevel.icon\<close> returns
  \<open>mdi:food-drumstick-off\<close> in exactly the cases in which \<open>is_on\<close> returns True and
  \<open>mdi:food-drumstick\<close> otherwise. On a feeder of type d3 whose \<open>food\<close> is not a number
  both raise TypeError.
\<close>

theorem FoodLevel_threshold:
  assumes "feeder_data data k = Inr fd"
      and "nested (Feeder_data fd) ''state'' ''food'' = Inr v"
  shows "((Feeder_type fd = ''d3'' \<longrightarrow> is_number v) \<longrightarrow>
            is_on data (FoodLevel k) =
              Inr (JBool (if Feeder_type fd = ''d3'' then py_lt_int v 2 = Inr True
                          else py_eq_int v 0))
          \<and> icon data (FoodLevel k) =
              Inr (if (if Feeder_type fd = ''d3'' then py_lt_int v 2 = Inr True
                       else py_eq_int v 0)
                   then ''mdi:food-drumstick-off'' else ''mdi:food-drumstick''))
       \<and> (Feeder_type fd = ''d3'' \<and> \<not> is_number v \<longrightarrow>
            is_on data (FoodLevel k) = Inl TypeError
          \<and> icon data (FoodLevel k) = Inl TypeError)"
proof (cases "Feeder_type fd = ''d3''")
  case True
  with assms show ?thesis by (cases v) simp_all
next
  case False
  with assms show ?thesis by simp
qed

theorem FoodLevel_threshold_witness:
  "is_on home (FoodLevel 3) = Inr (JBool True)
   \<and> icon home (FoodLevel 3) = Inr ''mdi:food-drumstick-off''"
  using FoodLevel_threshold [of home 3 home_feeder_d3 "JInt 1"]
  by (simp add: lookups home_defs)

section \<open>The deodorizer sensor of a litter box\<close>

text \<open>
  Claim C6. For a litter box that an \<open>LBDeodorizerLack\<close> entity reads, the translation
  key is \<open>pura_air_liquid\<close> and the icon \<open>mdi:cup\<close> when \<open>k3Device\<close> is a key of
  \<open>device_detail\<close>, and they are \<open>deodorizer\<close> and \<open>mdi:spray\<close> otherwise.
\<close>

theorem deodorizer_presentation:
  assumes "lb_data data k = Inr lb"
  shows "translation_key data (LBDeodorizerLack k) =
           Inr (if ''k3Device'' \<in> fst ` set (LitterBox_device_detail lb)
                then ''pura_air_liquid'' else ''deodorizer'')
       \<and> icon data (LBDeodorizerLack k) =
           Inr (if ''k3Device'' \<in> fst ` set (LitterBox_device_detail lb)
                then ''mdi:cup'' else ''mdi:spray'')"
  using assms by simp

theorem deodorizer_presentation_witness:
  "translation_key home (LBDeodorizerLack 4) = Inr ''pura_air_liquid''
   \<and> icon home (LBDeodorizerLack 4) = Inr ''mdi:cup''"
  using deodorizer_presentation [of home 4 home_litter_box]
  by (simp add: lookups home_defs)

text \<open>
  Claim C7. \<open>LBDeodorizerLack.available\<close> returns False exactly when the litter box is
  of type t4 and \<open>k3Device\<close> is not a key of \<open>device_detail\<close>, and True in every other
  case; in particular it returns True for every litter box of type t3.
\<close>

theorem deodorizer_available:
  assumes "lb_data data k = Inr lb"
  shows "(available data (LBDeodorizerLack k) = Some (Inr False)
            \<longleftrightarrow> LitterBox_type lb = ''t4''
                \<and> ''k3Device'' \<notin> fst ` set (LitterBox_device_detail lb))
       \<and> (available data (LBDeodorizerLack k) = Some (Inr True)
            \<longleftrightarrow> \<not> (LitterBox_type lb = ''t4''
                   \<and> ''k3Device'' \<notin> fst ` set (LitterBox_device_detail lb)))
       \<and> (LitterBox_type lb = ''t3'' \<longrightarrow> available data (LBDeodorizerLack k) = Some (Inr True))"
  using assms by simp

theorem deodorizer_available_witness:
  "available home (LBDeodorizerLack 4) = Some (Inr True)"
  using deodorizer_available [of home 4 home_litter_box]
  by (simp add: lookups home_defs)

section \<open>The waste bin presence sensor\<close>

text \<open>
  Claim C8. For a litter box whose \<open>device_detail["state"]\<close> holds \<open>boxState\<close>,
  \<open>LBBWastePresence.is_on\<close> returns True exactly when \<open>boxState\<close> is not equal to 1 and
  False when it is; the icon is \<open>mdi:inbox-remove\<close> exactly when \<open>is_on\<close> returns True,
  and \<open>mdi:inbox\<close> otherwise.
\<close>

theorem waste_presence:
  assumes "lb_data data k = Inr lb"
      and "nested (LitterBox_device_detail lb) ''state'' ''boxState'' = Inr v"
  shows "(is_on data (LBBWastePresence k) = Inr (JBool True) \<longleftrightarrow> \<not> py_eq_int v 1)
       \<and> (is_on data (LBBWastePresence k) = Inr (JBool False) \<longleftrightarrow> py_eq_int v 1)
       \<and> (icon data (LBBWastePresence k) = Inr ''mdi:inbox-remove''
            \<longleftrightarrow> is_on data (LBBWastePresence k) = Inr (JBool True))
       \<and> (icon data (LBBWastePresence k) = Inr ''mdi:inbox''
            \<longleftrightarrow> is_on data (LBBWastePresence k) \<noteq> Inr (JBool True))"
  using assms by simp

theorem waste_presence_witness:
  "is_on home (LBBWastePresence 4) = Inr (JBool False)
   \<and> icon home (LBBWastePresence 4) = Inr ''mdi:inbox''"
  using waste_presence [of home 4 home_litter_box "JInt 1"]
  by (simp add: lookups home_defs)

section \<open>The entities of the example household\<close>

lemma setup_home:
  "async_setup_entry home =
     Inr [WFWater 1, WFElectricStatus 1, WFPumpStatus 1,
          BatteryInstalled 2, FoodLevelHopper1 2, FoodLevelHopper2 2, CameraStatus 2,
          Eating 2, Feeding 2, CarePlusSubscription 2,
          FoodLevel 3, BatteryCharging 3,
          LBBinFull 4, LBLitterLack 4, LBDeodorizerLack 4, LBManuallyPaused 4,
          LBBWastePresence 4]"
  by (simp add: async_setup_entry_def home_defs fountain_sensors_def feeder_sensors_def
      litter_box_sensors_def dict_getitem_def)

section \<open>The hopper sensors\<close>

text \<open>
  Claim C9. The icon of a hopper sensor is meant to follow \<open>is_on\<close>: it is
  \<open>mdi:food-drumstick-off\<close> exactly when \<open>is_on\<close> returns True, for every integer
  level. The code misses this for a negative level: \<open>is_on\<close> tests \<open>< 1\<close> and returns
  True, while \<open>icon\<close> tests \<open>== 0\<close> and returns \<open>mdi:food-drumstick\<close>. The other
  classes use one test for both properties, or let \<open>icon\<close> read \<open>is_on\<close>.
\<close>

theorem hopper_counterexample:
  "async_setup_entry hopper_home
     = Inr [BatteryInstalled 5, FoodLevelHopper1 5, FoodLevelHopper2 5]
   \<and> is_on hopper_home (FoodLevelHopper1 5) = Inr (JBool True)
   \<and> icon hopper_home (FoodLevelHopper1 5) = Inr ''mdi:food-drumstick''
   \<and> is_on hopper_home (FoodLevelHopper2 5) = Inr (JBool True)
   \<and> icon hopper_home (FoodLevelHopper2 5) = Inr ''mdi:food-drumstick''"
  by (simp add: async_setup_entry_def hopper_home_def hopper_feeder_def feeder_sensors_def
      lookups)

text \<open>
  On the levels that are not negative the two tests of a hopper sensor agree.
\<close>

theorem hopper_icon_agrees:
  assumes "feeder_data data k = Inr fd"
  shows "(\<forall>n. nested (Feeder_data fd) ''state'' ''food1'' = Inr (JInt n) \<and> 0 \<le> n \<longrightarrow>
            (icon data (FoodLevelHopper1 k) = Inr ''mdi:food-drumstick-off''
               \<longleftrightarrow> is_on data (FoodLevelHopper1 k) = Inr (JBool True)))
       \<and> (\<forall>n. nested (Feeder_data fd) ''state'' ''food2'' = Inr (JInt n) \<and> 0 \<le> n \<longrightarrow>
            (icon data (FoodLevelHopper2 k) = Inr ''mdi:food-drumstick-off''
               \<longleftrightarrow> is_on data (FoodLevelHopper2 k) = Inr (JBool True)))"
proof (intro conjI allI impI)
  fix n
  assume "nested (Feeder_data fd) ''state'' ''food1'' = Inr (JInt n) \<and> 0 \<le> n"
  then have "nested (Feeder_data fd) ''state'' ''food1'' = Inr (JInt n)" and "0 \<le> n"
    by simp_all
  moreover have "n = 0 \<longleftrightarrow> n < 1" using \<open>0 \<le> n\<close> by arith
  ultimately show "icon data (FoodLevelHopper1 k) = Inr ''mdi:food-drumstick-off''
      \<longleftrightarrow> is_on data (FoodLevelHopper1 k) = Inr (JBool True)"
    using assms by simp
next
  fix n
  assume "nested (Feeder_data fd) ''state'' ''food2'' = Inr (JInt n) \<and> 0 \<le> n"
  then have "nested (Feeder_data fd) ''state'' ''food2'' = Inr (JInt n)" and "0 \<le> n"
    by simp_all
  moreover have "n = 0 \<longleftrightarrow> n < 1" using \<open>0 \<le> n\<close> by arith
  ultimately show "icon data (FoodLevelHopper2 k) = Inr ''mdi:food-drumstick-off''
      \<longleftrightarrow> is_on data (FoodLevelHopper2 k) = Inr (JBool True)"
    using assms by simp
qed

theorem hopper_icon_agrees_witness:
  "is_on home (FoodLevelHopper2 2) = Inr (JBool True)
   \<and> icon home (FoodLevelHopper2 2) = Inr ''mdi:food-drumstick-off''
   \<and> is_on home (FoodLevelHopper1 2) = Inr (JBool False)
   \<and> icon home (FoodLevelHopper1 2) \<noteq> Inr ''mdi:food-drumstick-off''"
  using hopper_icon_agrees [of home 2 home_feeder_d4sh]
  by (simp add: lookups home_defs)

section \<open>Device classes\<close>

text \<open>
  Claim C4 as stated (every instantiated entity class defines a device class) fails:
  \<open>async_setup_entry\<close> creates entities of the classes \<open>BatteryInstalled\<close>,
  \<open>CameraStatus\<close>, \<open>CarePlusSubscription\<close> and \<open>LBManuallyPaused\<close>, none of which
  defines \<open>device_class\<close>.
\<close>

theorem device_class_counterexample:
  "async_setup_entry home =
     Inr [WFWater 1, WFElectricStatus 1, WFPumpStatus 1,
          BatteryInstalled 2, FoodLevelHopper1 2, FoodLevelHopper2 2, CameraStatus 2,
          Eating 2, Feeding 2, CarePlusSubscription 2,
          FoodLevel 3, BatteryCharging 3,
          LBBinFull 4, LBLitterLack 4, LBDeodorizerLack 4, LBManuallyPaused 4,
          LBBWastePresence 4]
   \<and> device_class (BatteryInstalled 2) = None
   \<and> device_class (CameraStatus 2) = None
   \<and> device_class (CarePlusSubscription 2) = None
   \<and> device_class (LBManuallyPaused 4) = None"
  using setup_home by simp

text \<open>
  Claim C4, amended. An entity class defines a device class unless it is one of
  \<open>BatteryInstalled\<close>, \<open>CameraStatus\<close>, \<open>LBManuallyPaused\<close> and
  \<open>CarePlusSubscription\<close>; each of these four defines the entity category DIAGNOSTIC
  instead.
\<close>

theorem device_class_defined:
  "(device_class e = None
      \<longleftrightarrow> e \<in> range BatteryInstalled \<union> range CameraStatus
            \<union> range LBManuallyPaused \<union> range CarePlusSubscription)
   \<and> (device_class e = None \<longrightarrow> entity_category e = Some DIAGNOSTIC)"
  by (cases e) auto

theorem device_class_defined_witness:
  "device_class (WFWater 1) \<noteq> None \<and> device_class (BatteryInstalled 2) = None
   \<and> entity_category (BatteryInstalled 2) = Some DIAGNOSTIC"
  using device_class_defined [of "WFWater 1"] device_class_defined [of "BatteryInstalled 2"]
  by simp

section \<open>What is_on returns\<close>

lemma bnd_InrE:
  assumes "bnd m f = Inr y"
  obtains x where "m = Inr x" and "f x = Inr y"
  using assms by (cases m) simp_all

lemma order_number:
  "is_number v \<Longrightarrow> \<exists>b. py_lt_int v n = Inr b"
  "is_number v \<Longrightarrow> \<exists>b. py_gt_int v n = Inr b"
  "\<not> is_number v \<Longrightarrow> py_lt_int v n = Inl TypeError"
  "\<not> is_number v \<Longrightarrow> py_gt_int v n = Inl TypeError"
  by (cases v; simp)+

text \<open>
  Claim C2 as stated (with the fields it reads present, \<open>is_on\<close> returns a value and
  the value is a boolean) fails twice on entities that \<open>async_setup_entry\<close> creates:
  \<open>LBBinFull.is_on\<close> returns the field \<open>boxFull\<close> as it is, here the number 1, and
  \<open>FoodLevel.is_on\<close> on a feeder of type d3 raises TypeError when \<open>food\<close> is a
  string.
\<close>

theorem is_on_counterexample:
  "async_setup_entry untyped_home = Inr [FoodLevel 7, BatteryCharging 7, LBBinFull 6, LBLitterLack 6]
   \<and> is_on_reads untyped_home (LBBinFull 6) = Inr (JInt 1)
   \<and> is_on untyped_home (LBBinFull 6) = Inr (JInt 1)
   \<and> is_on_reads untyped_home (FoodLevel 7) = Inr (JStr ''1'')
   \<and> is_on untyped_home (FoodLevel 7) = Inl TypeError"
  by (simp add: async_setup_entry_def untyped_home_def numeric_litter_box_def text_feeder_def
      feeder_sensors_def litter_box_sensors_def lookups)

text \<open>
  Claim C2, amended. When the value its \<open>is_on\<close> reads is present, an entity's
  \<open>is_on\<close> returns a value unless it compares the value with \<open><\<close> or \<open>>\<close> and
  the value is not a number, in which case it raises TypeError. The value returned is a
  boolean for every class except \<open>LBBinFull\<close>, \<open>LBLitterLack\<close> and
  \<open>LBDeodorizerLack\<close>, which return the field they read unchanged.
\<close>

theorem is_on_result:
  assumes "is_on_reads data e = Inr v"
  shows "(is_on_orders data e \<and> \<not> is_number v \<longrightarrow> is_on data e = Inl TypeError)
       \<and> ((is_on_orders data e \<longrightarrow> is_number v) \<longrightarrow>
            (\<exists>r. is_on data e = Inr r
                 \<and> (if is_on_returns_field e then r = v else (\<exists>b. r = JBool b))))"
proof (cases "is_number v")
  case True
  from order_number(1,2) [OF True]
  have "\<exists>b. py_lt_int v 2 = Inr b" "\<exists>b. py_lt_int v 1 = Inr b"
       "\<exists>b. py_gt_int v 1 = Inr b" "\<exists>b. py_gt_int v 0 = Inr b"
    by blast+
  with assms True show ?thesis
    by (cases e) (auto elim!: bnd_InrE)
next
  case False
  from order_number(3,4) [OF False]
  have "py_lt_int v 2 = Inl TypeError" "py_lt_int v 1 = Inl TypeError"
       "py_gt_int v 1 = Inl TypeError" "py_gt_int v 0 = Inl TypeError"
    by blast+
  with assms False show ?thesis
    by (cases e) (auto elim!: bnd_InrE)
qed

theorem is_on_result_witness:
  "(\<exists>b. is_on home (FoodLevel 3) = Inr (JBool b))
   \<and> is_on home (LBDeodorizerLack 4) = Inr (JBool True)"
  using is_on_result [of home "FoodLevel 3" "JInt 1"]
        is_on_result [of home "LBDeodorizerLack 4" "JBool True"]
  by (simp add: lookups home_defs)

section \<open>The entities async_setup_entry creates\<close>

lemma fountain_loop_concat:
  "fountain_loop xs acc = acc @ concat (map (\<lambda>(k, d). fountain_sensors k d) xs)"
  by (induction xs arbitrary: acc) auto

lemma feeder_loop_concat:
  "feeder_loop xs acc = acc @ concat (map (\<lambda>(k, d). feeder_sensors k d) xs)"
  by (induction xs arbitrary: acc) auto

text \<open>With a dictionary under \<open>state\<close> the body of the litter box loop does not raise.\<close>

lemma litter_box_sensors_dict:
  assumes "dict_getitem (LitterBox_device_detail lb) ''state'' = Inr (JDict st)"
  shows "litter_box_sensors k lb = Inr (
      (if LitterBox_type lb \<in> {''t3'', ''t4'', ''t6''} then [LBBinFull k, LBLitterLack k] else [])
    @ (if LitterBox_type lb = ''t3'' \<or> ''k3Device'' \<in> fst ` set (LitterBox_device_detail lb)
       then [LBDeodorizerLack k] else [])
    @ (if LitterBox_type lb = ''t3'' then [LBManuallyPaused k] else [])
    @ (if ''boxState'' \<in> fst ` set st then [LBBWastePresence k] else []))"
  using assms by (simp add: litter_box_sensors_def Let_def)

lemma litter_box_loop_concat:
  assumes "\<forall>(k, lb) \<in> set xs. \<exists>st. dict_getitem (LitterBox_device_detail lb) ''state'' = Inr (JDict st)"
  shows "litter_box_loop xs acc =
           Inr (acc @ concat (map (\<lambda>(k, lb). projr (litter_box_sensors k lb)) xs))"
  using assms
proof (induction xs arbitrary: acc)
  case Nil
  show ?case by simp
next
  case (Cons x xs)
  obtain k lb where x: "x = (k, lb)" by (cases x)
  from Cons.prems x obtain st
    where st: "dict_getitem (LitterBox_device_detail lb) ''state'' = Inr (JDict st)"
    by auto
  from Cons.prems
  have rest: "\<forall>(k, lb) \<in> set xs. \<exists>st. dict_getitem (LitterBox_device_detail lb) ''state'' = Inr (JDict st)"
    by simp
  show ?case
    unfolding x by (simp add: litter_box_sensors_dict [OF st] Cons.IH [OF rest])
qed

lemma in_fountain_part:
  "e \<in> set (concat (map (\<lambda>(k, d). fountain_sensors k d) xs)) \<longleftrightarrow>
     (\<exists>k d. (k, d) \<in> set xs \<and>
        (e = WFWater k
         \<or> Fountain_type d = ''ctw3'' \<and> (e = WFElectricStatus k \<or> e = WFPumpStatus k)))"
  by (auto simp: fountain_sensors_def)

lemma in_feeder_part:
  "e \<in> set (concat (map (\<lambda>(k, d). feeder_sensors k d) xs)) \<longleftrightarrow>
     (\<exists>k d. (k, d) \<in> set xs \<and>
        (Feeder_type d \<notin> {''d4s'', ''d4sh''} \<and> e = FoodLevel k
         \<or> Feeder_type d \<in> {''d4'', ''d4s'', ''d4sh''} \<and> e = BatteryInstalled k
         \<or> Feeder_type d \<in> {''d4s'', ''d4sh''}
             \<and> (e = FoodLevelHopper1 k \<or> e = FoodLevelHopper2 k)
         \<or> Feeder_type d = ''d4sh''
             \<and> (e = CameraStatus k \<or> e = Eating k \<or> e = Feeding k
                  \<or> e = CarePlusSubscription k)
         \<or> Feeder_type d = ''d3'' \<and> e = BatteryCharging k))"
  by (auto simp: feeder_sensors_def)

lemma in_litter_box_part:
  assumes "\<forall>(k, lb) \<in> set xs. \<exists>st. dict_getitem (LitterBox_device_detail lb) ''state'' = Inr (JDict st)"
  shows "e \<in> set (concat (map (\<lambda>(k, lb). projr (litter_box_sensors k lb)) xs)) \<longleftrightarrow>
     (\<exists>k lb st. (k, lb) \<in> set xs
        \<and> dict_getitem (LitterBox_device_detail lb) ''state'' = Inr (JDict st) \<and>
        (LitterBox_type lb \<in> {''t3'', ''t4'', ''t6''} \<and> (e = LBBinFull k \<or> e = LBLitterLack k)
         \<or> (LitterBox_type lb = ''t3''
              \<or> ''k3Device'' \<in> fst ` set (LitterBox_device_detail lb))
             \<and> e = LBDeodorizerLack k
         \<or> LitterBox_type lb = ''t3'' \<and> e = LBManuallyPaused k
         \<or> ''boxState'' \<in> fst ` set st \<and> e = LBBWastePresence k))"
    (is "?L \<longleftrightarrow> ?R")
proof
  assume ?L
  then obtain k lb where in_xs: "(k, lb) \<in> set xs"
    and e: "e \<in> set (projr (litter_box_sensors k lb))"
    by auto
  from assms in_xs obtain st
    where st: "dict_getitem (LitterBox_device_detail lb) ''state'' = Inr (JDict st)"
    by auto
  from e have "LitterBox_type lb \<in> {''t3'', ''t4'', ''t6''} \<and> (e = LBBinFull k \<or> e = LBLitterLack k)
         \<or> (LitterBox_type lb = ''t3''
              \<or> ''k3Device'' \<in> fst ` set (LitterBox_device_detail lb))
             \<and> e = LBDeodorizerLack k
         \<or> LitterBox_type lb = ''t3'' \<and> e = LBManuallyPaused k
         \<or> ''boxState'' \<in> fst ` set st \<and> e = LBBWastePresence k"
    unfolding litter_box_sensors_dict [OF st] by (auto split: if_splits)
  with in_xs st show ?R by blast
next
  assume ?R
  then obtain k lb st where in_xs: "(k, lb) \<in> set xs"
    and st: "dict_getitem (LitterBox_device_detail lb) ''state'' = Inr (JDict st)"
    and e: "LitterBox_type lb \<in> {''t3'', ''t4'', ''t6''} \<and> (e = LBBinFull k \<or> e = LBLitterLack k)
         \<or> (LitterBox_type lb = ''t3''
              \<or> ''k3Device'' \<in> fst ` set (LitterBox_device_detail lb))
             \<and> e = LBDeodorizerLack k
         \<or> LitterBox_type lb = ''t3'' \<and> e = LBManuallyPaused k
         \<or> ''boxState'' \<in> fst ` set st \<and> e = LBBWastePresence k"
    by blast
  from e have "e \<in> set (projr (litter_box_sensors k lb))"
    unfolding litter_box_sensors_dict [OF st] by auto
  with in_xs show ?L by force
qed


lemma fountain_sensors_key:
  "distinct (fountain_sensors k d)" "e \<in> set (fountain_sensors k d) \<Longrightarrow> sensor_key e = k"
  by (auto simp: fountain_sensors_def)

lemma feeder_sensors_key:
  "distinct (feeder_sensors k d)" "e \<in> set (feeder_sensors k d) \<Longrightarrow> sensor_key e = k"
  by (auto simp: feeder_sensors_def split: if_splits)

lemma litter_box_sensors_key:
  assumes "dict_getitem (LitterBox_device_detail lb) ''state'' = Inr (JDict st)"
  shows "distinct (projr (litter_box_sensors k lb))"
    and "e \<in> set (projr (litter_box_sensors k lb)) \<Longrightarrow> sensor_key e = k"
  unfolding litter_box_sensors_dict [OF assms] by (auto split: if_splits)

lemma distinct_concat_keys:
  assumes "distinct (map fst xs)"
      and "\<And>k d. (k, d) \<in> set xs \<Longrightarrow> distinct (f k d)"
      and "\<And>k d e. (k, d) \<in> set xs \<Longrightarrow> e \<in> set (f k d) \<Longrightarrow> sensor_key e = k"
  shows "distinct (concat (map (\<lambda>(k, d). f k d) xs))"
  using assms
proof (induction xs)
  case Nil
  show ?case by simp
next
  case (Cons x xs)
  obtain k d where x: "x = (k, d)" by (cases x)
  have tail: "distinct (concat (map (\<lambda>(k, d). f k d) xs))"
  proof (rule Cons.IH)
    show "distinct (map fst xs)" using Cons.prems(1) by simp
  next
    fix k d assume "(k, d) \<in> set xs"
    then show "distinct (f k d)" by (simp add: Cons.prems(2))
  next
    fix k d e assume "(k, d) \<in> set xs" and "e \<in> set (f k d)"
    then show "sensor_key e = k" using Cons.prems(3) [of k d e] by simp
  qed
  have head: "distinct (f k d)"
    using Cons.prems(2) x by simp
  have "set (f k d) \<inter> set (concat (map (\<lambda>(k, d). f k d) xs)) = {}"
  proof (rule ccontr)
    assume "set (f k d) \<inter> set (concat (map (\<lambda>(k, d). f k d) xs)) \<noteq> {}"
    then obtain e k' d' where e: "e \<in> set (f k d)" and in_xs: "(k', d') \<in> set xs"
      and e': "e \<in> set (f k' d')"
      by auto
    from Cons.prems(3) [of k d e] x e have "sensor_key e = k" by simp
    moreover from Cons.prems(3) [of k' d' e] in_xs e' have "sensor_key e = k'" by simp
    ultimately have "k' = k" by simp
    with in_xs have "k \<in> fst ` set xs" by force
    with Cons.prems(1) x show False by simp
  qed
  with head tail show ?case unfolding x by simp
qed

lemma litter_box_sensors_Inr:
  assumes "litter_box_sensors k lb = Inr s"
  shows "distinct s"
    and "e \<in> set s \<Longrightarrow> e \<in> {LBBinFull k, LBLitterLack k, LBDeodorizerLack k,
                                  LBManuallyPaused k, LBBWastePresence k}"
  using assms
  by (auto simp: litter_box_sensors_def Let_def elim!: bnd_InrE split: if_splits)

lemma litter_box_loop_Inr:
  assumes "litter_box_loop xs acc = Inr r"
  shows "r = acc @ concat (map (\<lambda>(k, lb). projr (litter_box_sensors k lb)) xs)
       \<and> (\<forall>(k, lb) \<in> set xs. \<exists>s. litter_box_sensors k lb = Inr s)"
  using assms
proof (induction xs arbitrary: acc)
  case Nil
  then show ?case by simp
next
  case (Cons x xs)
  obtain k lb where x: "x = (k, lb)" by (cases x)
  from Cons.prems x obtain s where s: "litter_box_sensors k lb = Inr s"
    and rest: "litter_box_loop xs (acc @ s) = Inr r"
    by (auto elim!: bnd_InrE)
  from Cons.IH [OF rest] s show ?case unfolding x by simp
qed

lemma setup_result:
  assumes "async_setup_entry data = Inr ents"
  shows "ents = concat (map (\<lambda>(k, d). fountain_sensors k d) (water_fountains data))
              @ concat (map (\<lambda>(k, d). feeder_sensors k d) (feeders data))
              @ concat (map (\<lambda>(k, lb). projr (litter_box_sensors k lb)) (litter_boxes data))"
    and "(k, lb) \<in> set (litter_boxes data) \<Longrightarrow> \<exists>s. litter_box_sensors k lb = Inr s"
  using litter_box_loop_Inr [OF assms [unfolded async_setup_entry_def]]
  by (auto simp: fountain_loop_concat feeder_loop_concat)

text \<open>
  Claim C1 as stated (for every device of the coordinator data the entities are exactly
  those its type and state determine) fails when a litter box has no \<open>state\<close> in its
  \<open>device_detail\<close>: the test for \<open>boxState\<close> raises KeyError, the exception leaves
  \<open>async_setup_entry\<close>, and no entity is created, neither for that litter box (of type
  t3) nor for the fountain beside it.
\<close>

theorem setup_counterexample:
  "bare_home = \<lparr>water_fountains = [(1, home_fountain)], feeders = [],
                 litter_boxes = [(8, bare_litter_box)]\<rparr>
   \<and> LitterBox_type bare_litter_box = ''t3''
   \<and> dict_getitem (LitterBox_device_detail bare_litter_box) ''state'' = Inl KeyError
   \<and> async_setup_entry bare_home = Inl KeyError"
  by (simp add: async_setup_entry_def bare_home_def bare_litter_box_def home_fountain_def
      fountain_sensors_def litter_box_sensors_def dict_getitem_def)

text \<open>The entities of a call over litter boxes that all have a dictionary under
  \<open>state\<close>.\<close>

lemma setup_entities_dict:
  assumes states: "\<forall>(k, lb) \<in> set (litter_boxes data).
             \<exists>st. dict_getitem (LitterBox_device_detail lb) ''state'' = Inr (JDict st)"
  shows "\<exists>ents. async_setup_entry data = Inr ents
     \<and> (distinct (map fst (water_fountains data)) \<and> distinct (map fst (feeders data))
          \<and> distinct (map fst (litter_boxes data)) \<longrightarrow> distinct ents)
     \<and> (\<forall>k.
         (WFWater k \<in> set ents \<longleftrightarrow> (\<exists>d. (k, d) \<in> set (water_fountains data)))
       \<and> (WFElectricStatus k \<in> set ents \<longleftrightarrow>
            (\<exists>d. (k, d) \<in> set (water_fountains data) \<and> Fountain_type d = ''ctw3''))
       \<and> (WFPumpStatus k \<in> set ents \<longleftrightarrow>
            (\<exists>d. (k, d) \<in> set (water_fountains data) \<and> Fountain_type d = ''ctw3''))
       \<and> (FoodLevel k \<in> set ents \<longleftrightarrow>
            (\<exists>d. (k, d) \<in> set (feeders data) \<and> Feeder_type d \<notin> {''d4s'', ''d4sh''}))
       \<and> (BatteryInstalled k \<in> set ents \<longleftrightarrow>
            (\<exists>d. (k, d) \<in> set (feeders data) \<and> Feeder_type d \<in> {''d4'', ''d4s'', ''d4sh''}))
       \<and> (FoodLevelHopper1 k \<in> set ents \<longleftrightarrow>
            (\<exists>d. (k, d) \<in> set (feeders data) \<and> Feeder_type d \<in> {''d4s'', ''d4sh''}))
       \<and> (FoodLevelHopper2 k \<in> set ents \<longleftrightarrow>
            (\<exists>d. (k, d) \<in> set (feeders data) \<and> Feeder_type d \<in> {''d4s'', ''d4sh''}))
       \<and> (CameraStatus k \<in> set ents \<longleftrightarrow>
            (\<exists>d. (k, d) \<in> set (feeders data) \<and> Feeder_type d = ''d4sh''))
       \<and> (Eating k \<in> set ents \<longleftrightarrow>
            (\<exists>d. (k, d) \<in> set (feeders data) \<and> Feeder_type d = ''d4sh''))
       \<and> (Feeding k \<in> set ents \<longleftrightarrow>
            (\<exists>d. (k, d) \<in> set (feeders data) \<and> Feeder_type d = ''d4sh''))
       \<and> (CarePlusSubscription k \<in> set ents \<longleftrightarrow>
            (\<exists>d. (k, d) \<in> set (feeders data) \<and> Feeder_type d = ''d4sh''))
       \<and> (BatteryCharging k \<in> set ents \<longleftrightarrow>
            (\<exists>d. (k, d) \<in> set (feeders data) \<and> Feeder_type d = ''d3''))
       \<and> (LBBinFull k \<in> set ents \<longleftrightarrow>
            (\<exists>d. (k, d) \<in> set (litter_boxes data)
                 \<and> LitterBox_type d \<in> {''t3'', ''t4'', ''t6''}))
       \<and> (LBLitterLack k \<in> set ents \<longleftrightarrow>
            (\<exists>d. (k, d) \<in> set (litter_boxes data)
                 \<and> LitterBox_type d \<in> {''t3'', ''t4'', ''t6''}))
       \<and> (LBDeodorizerLack k \<in> set ents \<longleftrightarrow>
            (\<exists>d. (k, d) \<in> set (litter_boxes data)
                 \<and> (LitterBox_type d = ''t3''
                      \<or> ''k3Device'' \<in> fst ` set (LitterBox_device_detail d))))
       \<and> (LBManuallyPaused k \<in> set ents \<longleftrightarrow>
            (\<exists>d. (k, d) \<in> set (litter_boxes data) \<and> LitterBox_type d = ''t3''))
       \<and> (LBBWastePresence k \<in> set ents \<longleftrightarrow>
            (\<exists>d st. (k, d) \<in> set (litter_boxes data)
                 \<and> dict_getitem (LitterBox_device_detail d) ''state'' = Inr (JDict st)
                 \<and> ''boxState'' \<in> fst ` set st)))"
proof -
  define A where "A = concat (map (\<lambda>(k, d). fountain_sensors k d) (water_fountains data))"
  define B where "B = concat (map (\<lambda>(k, d). feeder_sensors k d) (feeders data))"
  define C where
    "C = concat (map (\<lambda>(k, lb). projr (litter_box_sensors k lb)) (litter_boxes data))"
  note inA = in_fountain_part [of _ "water_fountains data", folded A_def]
  note inB = in_feeder_part [of _ "feeders data", folded B_def]
  note inC = in_litter_box_part [OF states, folded C_def]
  have run: "async_setup_entry data = Inr (A @ B @ C)"
    by (simp add: async_setup_entry_def fountain_loop_concat feeder_loop_concat
        litter_box_loop_concat [OF states] A_def B_def C_def)
  have present: "\<exists>st. dict_getitem (LitterBox_device_detail d) ''state'' = Inr (JDict st)"
    if "(k, d) \<in> set (litter_boxes data)" for k d
    using states that by auto
  have dist: "distinct (A @ B @ C)"
    if keys: "distinct (map fst (water_fountains data)) \<and> distinct (map fst (feeders data))
          \<and> distinct (map fst (litter_boxes data))"
  proof -
    have "distinct A"
      unfolding A_def using keys
      by (intro distinct_concat_keys) (auto simp: fountain_sensors_key)
    moreover have "distinct B"
      unfolding B_def using keys
      by (intro distinct_concat_keys) (auto simp: feeder_sensors_key)
    moreover have "distinct C"
      unfolding C_def
    proof (rule distinct_concat_keys)
      show "distinct (map fst (litter_boxes data))" using keys by simp
    next
      fix k d assume "(k, d) \<in> set (litter_boxes data)"
      from present [OF this] show "distinct (projr (litter_box_sensors k d))"
        by (auto simp: litter_box_sensors_key)
    next
      fix k d e
      assume "(k, d) \<in> set (litter_boxes data)" and "e \<in> set (projr (litter_box_sensors k d))"
      with present [of k d] show "sensor_key e = k"
        by (auto simp: litter_box_sensors_key)
    qed
    moreover have "set A \<inter> set B = {}" "set A \<inter> set C = {}" "set B \<inter> set C = {}"
      by (auto simp: inA inB inC)
    ultimately show ?thesis by auto
  qed
  have members: "\<forall>k.
         (WFWater k \<in> set (A @ B @ C) \<longleftrightarrow> (\<exists>d. (k, d) \<in> set (water_fountains data)))
       \<and> (WFElectricStatus k \<in> set (A @ B @ C) \<longleftrightarrow>
            (\<exists>d. (k, d) \<in> set (water_fountains data) \<and> Fountain_type d = ''ctw3''))
       \<and> (WFPumpStatus k \<in> set (A @ B @ C) \<longleftrightarrow>
            (\<exists>d. (k, d) \<in> set (water_fountains data) \<and> Fountain_type d = ''ctw3''))
       \<and> (FoodLevel k \<in> set (A @ B @ C) \<longleftrightarrow>
            (\<exists>d. (k, d) \<in> set (feeders data) \<and> Feeder_type d \<notin> {''d4s'', ''d4sh''}))
       \<and> (BatteryInstalled k \<in> set (A @ B @ C) \<longleftrightarrow>
            (\<exists>d. (k, d) \<in> set (feeders data) \<and> Feeder_type d \<in> {''d4'', ''d4s'', ''d4sh''}))
       \<and> (FoodLevelHopper1 k \<in> set (A @ B @ C) \<longleftrightarrow>
            (\<exists>d. (k, d) \<in> set (feeders data) \<and> Feeder_type d \<in> {''d4s'', ''d4sh''}))
       \<and> (FoodLevelHopper2 k \<in> set (A @ B @ C) \<longleftrightarrow>
            (\<exists>d. (k, d) \<in> set (feeders data) \<and> Feeder_type d \<in> {''d4s'', ''d4sh''}))
       \<and> (CameraStatus k \<in> set (A @ B @ C) \<longleftrightarrow>
            (\<exists>d. (k, d) \<in> set (feeders data) \<and> Feeder_type d = ''d4sh''))
       \<and> (Eating k \<in> set (A @ B @ C) \<longleftrightarrow>
            (\<exists>d. (k, d) \<in> set (feeders data) \<and> Feeder_type d = ''d4sh''))
       \<and> (Feeding k \<in> set (A @ B @ C) \<longleftrightarrow>
            (\<exists>d. (k, d) \<in> set (feeders data) \<and> Feeder_type d = ''d4sh''))
       \<and> (CarePlusSubscription k \<in> set (A @ B @ C) \<longleftrightarrow>
            (\<exists>d. (k, d) \<in> set (feeders data) \<and> Feeder_type d = ''d4sh''))
       \<and> (BatteryCharging k \<in> set (A @ B @ C) \<longleftrightarrow>
            (\<exists>d. (k, d) \<in> set (feeders data) \<and> Feeder_type d = ''d3''))
       \<and> (LBBinFull k \<in> set (A @ B @ C) \<longleftrightarrow>
            (\<exists>d. (k, d) \<in> set (litter_boxes data)
                 \<and> LitterBox_type d \<in> {''t3'', ''t4'', ''t6''}))
       \<and> (LBLitterLack k \<in> set (A @ B @ C) \<longleftrightarrow>
            (\<exists>d. (k, d) \<in> set (litter_boxes data)
                 \<and> LitterBox_type d \<in> {''t3'', ''t4'', ''t6''}))
       \<and> (LBDeodorizerLack k \<in> set (A @ B @ C) \<longleftrightarrow>
            (\<exists>d. (k, d) \<in> set (litter_boxes data)
                 \<and> (LitterBox_type d = ''t3''
                      \<or> ''k3Device'' \<in> fst ` set (LitterBox_device_detail d))))
       \<and> (LBManuallyPaused k \<in> set (A @ B @ C) \<longleftrightarrow>
            (\<exists>d. (k, d) \<in> set (litter_boxes data) \<and> LitterBox_type d = ''t3''))
       \<and> (LBBWastePresence k \<in> set (A @ B @ C) \<longleftrightarrow>
            (\<exists>d st. (k, d) \<in> set (litter_boxes data)
                 \<and> dict_getitem (LitterBox_device_detail d) ''state'' = Inr (JDict st)
                 \<and> ''boxState'' \<in> fst ` set st))"
    unfolding set_append Un_iff inA inB inC
    using present by (intro allI conjI) (simp; blast)+
  from run dist members show ?thesis by blast
qed


text \<open>
  Claim C1, amended. Provided \<open>device_detail["state"]\<close> of every litter box is a
  dictionary, \<open>async_setup_entry\<close> returns, and the entities it hands over are exactly
  these: for every water fountain \<open>WFWater\<close>, and \<open>WFElectricStatus\<close> and
  \<open>WFPumpStatus\<close> iff its type is ctw3; for every feeder \<open>FoodLevel\<close> iff its type is
  not d4s or d4sh, \<open>BatteryInstalled\<close> iff it is d4, d4s or d4sh, the two hopper sensors
  iff it is d4s or d4sh, \<open>CameraStatus\<close>, \<open>Eating\<close>, \<open>Feeding\<close> and
  \<open>CarePlusSubscription\<close> iff it is d4sh, \<open>BatteryCharging\<close> iff it is d3; for every
  litter box \<open>LBBinFull\<close> and \<open>LBLitterLack\<close> iff its type is t3, t4 or t6,
  \<open>LBDeodorizerLack\<close> iff its type is t3 or \<open>k3Device\<close> is a key of
  \<open>device_detail\<close>, \<open>LBManuallyPaused\<close> iff its type is t3, \<open>LBBWastePresence\<close> iff
  \<open>boxState\<close> is a key of \<open>device_detail["state"]\<close>. Every entity is one of these
  seventeen classes, so nothing else is created, and each is created once (the keys of a
  dictionary are distinct). If the \<open>device_detail\<close> of some litter box has no
  \<open>state\<close>, or has one that is not a dictionary, a list or a string, the call raises
  KeyError or TypeError and hands over no entity at all.
\<close>

theorem setup_entities:
  "((\<forall>(k, lb) \<in> set (litter_boxes data).
       \<exists>st. dict_getitem (LitterBox_device_detail lb) ''state'' = Inr (JDict st)) \<longrightarrow>
      (\<exists>ents. async_setup_entry data = Inr ents
           \<and> (distinct (map fst (water_fountains data)) \<and> distinct (map fst (feeders data))
                \<and> distinct (map fst (litter_boxes data)) \<longrightarrow> distinct ents)
           \<and> (\<forall>k.
               (WFWater k \<in> set ents \<longleftrightarrow> (\<exists>d. (k, d) \<in> set (water_fountains data)))
             \<and> (WFElectricStatus k \<in> set ents \<longleftrightarrow>
                  (\<exists>d. (k, d) \<in> set (water_fountains data) \<and> Fountain_type d = ''ctw3''))
             \<and> (WFPumpStatus k \<in> set ents \<longleftrightarrow>
                  (\<exists>d. (k, d) \<in> set (water_fountains data) \<and> Fountain_type d = ''ctw3''))
             \<and> (FoodLevel k \<in> set ents \<longleftrightarrow>
                  (\<exists>d. (k, d) \<in> set (feeders data) \<and> Feeder_type d \<notin> {''d4s'', ''d4sh''}))
             \<and> (BatteryInstalled k \<in> set ents \<longleftrightarrow>
                  (\<exists>d. (k, d) \<in> set (feeders data) \<and> Feeder_type d \<in> {''d4'', ''d4s'', ''d4sh''}))
             \<and> (FoodLevelHopper1 k \<in> set ents \<longleftrightarrow>
                  (\<exists>d. (k, d) \<in> set (feeders data) \<and> Feeder_type d \<in> {''d4s'', ''d4sh''}))
             \<and> (FoodLevelHopper2 k \<in> set ents \<longleftrightarrow>
                  (\<exists>d. (k, d) \<in> set (feeders data) \<and> Feeder_type d \<in> {''d4s'', ''d4sh''}))
             \<and> (CameraStatus k \<in> set ents \<longleftrightarrow>
                  (\<exists>d. (k, d) \<in> set (feeders data) \<and> Feeder_type d = ''d4sh''))
             \<and> (Eating k \<in> set ents \<longleftrightarrow>
                  (\<exists>d. (k, d) \<in> set (feeders data) \<and> Feeder_type d = ''d4sh''))
             \<and> (Feeding k \<in> set ents \<longleftrightarrow>
                  (\<exists>d. (k, d) \<in> set (feeders data) \<and> Feeder_type d = ''d4sh''))
             \<and> (CarePlusSubscription k \<in> set ents \<longleftrightarrow>
                  (\<exists>d. (k, d) \<in> set (feeders data) \<and> Feeder_type d = ''d4sh''))
             \<and> (BatteryCharging k \<in> set ents \<longleftrightarrow>
                  (\<exists>d. (k, d) \<in> set (feeders data) \<and> Feeder_type d = ''d3''))
             \<and> (LBBinFull k \<in> set ents \<longleftrightarrow>
                  (\<exists>d. (k, d) \<in> set (litter_boxes data)
                       \<and> LitterBox_type d \<in> {''t3'', ''t4'', ''t6''}))
             \<and> (LBLitterLack k \<in> set ents \<longleftrightarrow>
                  (\<exists>d. (k, d) \<in> set (litter_boxes data)
                       \<and> LitterBox_type d \<in> {''t3'', ''t4'', ''t6''}))
             \<and> (LBDeodorizerLack k \<in> set ents \<longleftrightarrow>
                  (\<exists>d. (k, d) \<in> set (litter_boxes data)
                       \<and> (LitterBox_type d = ''t3''
                            \<or> ''k3Device'' \<in> fst ` set (LitterBox_device_detail d))))
             \<and> (LBManuallyPaused k \<in> set ents \<longleftrightarrow>
                  (\<exists>d. (k, d) \<in> set (litter_boxes data) \<and> LitterBox_type d = ''t3''))
             \<and> (LBBWastePresence k \<in> set ents \<longleftrightarrow>
                  (\<exists>d st. (k, d) \<in> set (litter_boxes data)
                       \<and> dict_getitem (LitterBox_device_detail d) ''state'' = Inr (JDict st)
                       \<and> ''boxState'' \<in> fst ` set st)))))
   \<and> ((\<exists>(k, lb) \<in> set (litter_boxes data).
          dict_getitem (LitterBox_device_detail lb) ''state'' = Inl KeyError
          \<or> (\<exists>st. dict_getitem (LitterBox_device_detail lb) ''state'' = Inr st
                \<and> st \<notin> range JDict \<union> range JList \<union> range JStr)) \<longrightarrow>
        async_setup_entry data \<in> {Inl KeyError, Inl TypeError})"
proof (intro conjI impI)
  assume "\<forall>(k, lb) \<in> set (litter_boxes data).
       \<exists>st. dict_getitem (LitterBox_device_detail lb) ''state'' = Inr (JDict st)"
  then show "\<exists>ents. async_setup_entry data = Inr ents
           \<and> (distinct (map fst (water_fountains data)) \<and> distinct (map fst (feeders data))
                \<and> distinct (map fst (litter_boxes data)) \<longrightarrow> distinct ents)
           \<and> (\<forall>k.
               (WFWater k \<in> set ents \<longleftrightarrow> (\<exists>d. (k, d) \<in> set (water_fountains data)))
             \<and> (WFElectricStatus k \<in> set ents \<longleftrightarrow>
                  (\<exists>d. (k, d) \<in> set (water_fountains data) \<and> Fountain_type d = ''ctw3''))
             \<and> (WFPumpStatus k \<in> set ents \<longleftrightarrow>
                  (\<exists>d. (k, d) \<in> set (water_fountains data) \<and> Fountain_type d = ''ctw3''))
             \<and> (FoodLevel k \<in> set ents \<longleftrightarrow>
                  (\<exists>d. (k, d) \<in> set (feeders data) \<and> Feeder_type d \<notin> {''d4s'', ''d4sh''}))
             \<and> (BatteryInstalled k \<in> set ents \<longleftrightarrow>
                  (\<exists>d. (k, d) \<in> set (feeders data) \<and> Feeder_type d \<in> {''d4'', ''d4s'', ''d4sh''}))
             \<and> (FoodLevelHopper1 k \<in> set ents \<longleftrightarrow>
                  (\<exists>d. (k, d) \<in> set (feeders data) \<and> Feeder_type d \<in> {''d4s'', ''d4sh''}))
             \<and> (FoodLevelHopper2 k \<in> set ents \<longleftrightarrow>
                  (\<exists>d. (k, d) \<in> set (feeders data) \<and> Feeder_type d \<in> {''d4s'', ''d4sh''}))
             \<and> (CameraStatus k \<in> set ents \<longleftrightarrow>
                  (\<exists>d. (k, d) \<in> set (feeders data) \<and> Feeder_type d = ''d4sh''))
             \<and> (Eating k \<in> set ents \<longleftrightarrow>
                  (\<exists>d. (k, d) \<in> set (feeders data) \<and> Feeder_type d = ''d4sh''))
             \<and> (Feeding k \<in> set ents \<longleftrightarrow>
                  (\<exists>d. (k, d) \<in> set (feeders data) \<and> Feeder_type d = ''d4sh''))
             \<and> (CarePlusSubscription k \<in> set ents \<longleftrightarrow>
                  (\<exists>d. (k, d) \<in> set (feeders data) \<and> Feeder_type d = ''d4sh''))
             \<and> (BatteryCharging k \<in> set ents \<longleftrightarrow>
                  (\<exists>d. (k, d) \<in> set (feeders data) \<and> Feeder_type d = ''d3''))
             \<and> (LBBinFull k \<in> set ents \<longleftrightarrow>
                  (\<exists>d. (k, d) \<in> set (litter_boxes data)
                       \<and> LitterBox_type d \<in> {''t3'', ''t4'', ''t6''}))
             \<and> (LBLitterLack k \<in> set ents \<longleftrightarrow>
                  (\<exists>d. (k, d) \<in> set (litter_boxes data)
                       \<and> LitterBox_type d \<in> {''t3'', ''t4'', ''t6''}))
             \<and> (LBDeodorizerLack k \<in> set ents \<longleftrightarrow>
                  (\<exists>d. (k, d) \<in> set (litter_boxes data)
                       \<and> (LitterBox_type d = ''t3''
                            \<or> ''k3Device'' \<in> fst ` set (LitterBox_device_detail d))))
             \<and> (LBManuallyPaused k \<in> set ents \<longleftrightarrow>
                  (\<exists>d. (k, d) \<in> set (litter_boxes data) \<and> LitterBox_type d = ''t3''))
             \<and> (LBBWastePresence k \<in> set ents \<longleftrightarrow>
                  (\<exists>d st. (k, d) \<in> set (litter_boxes data)
                       \<and> dict_getitem (LitterBox_device_detail d) ''state'' = Inr (JDict st)
                       \<and> ''boxState'' \<in> fst ` set st)))"
    by (rule setup_entities_dict)
next
  assume "\<exists>(k, lb) \<in> set (litter_boxes data).
          dict_getitem (LitterBox_device_detail lb) ''state'' = Inl KeyError
          \<or> (\<exists>st. dict_getitem (LitterBox_device_detail lb) ''state'' = Inr st
                \<and> st \<notin> range JDict \<union> range JList \<union> range JStr)"
  then obtain k lb where member: "(k, lb) \<in> set (litter_boxes data)"
    and bad: "dict_getitem (LitterBox_device_detail lb) ''state'' = Inl KeyError
          \<or> (\<exists>st. dict_getitem (LitterBox_device_detail lb) ''state'' = Inr st
                \<and> st \<notin> range JDict \<union> range JList \<union> range JStr)"
    by auto
  show "async_setup_entry data \<in> {Inl KeyError, Inl TypeError}"
  proof (cases "async_setup_entry data")
    case (Inl err)
    then show ?thesis by (cases err) simp_all
  next
    case (Inr ents)
    from setup_result(2) [OF Inr member] obtain s
      where "litter_box_sensors k lb = Inr s" ..
    then obtain st b
      where st: "dict_getitem (LitterBox_device_detail lb) ''state'' = Inr st"
        and "py_contains st ''boxState'' = Inr b"
      by (auto simp: litter_box_sensors_def Let_def elim!: bnd_InrE)
    with bad have False by (cases st) auto
    then show ?thesis ..
  qed
qed

theorem setup_entities_witness:
  "\<exists>ents. async_setup_entry home = Inr ents \<and> distinct ents
     \<and> WFWater 1 \<in> set ents \<and> WFPumpStatus 1 \<in> set ents
     \<and> FoodLevel 2 \<notin> set ents \<and> FoodLevel 3 \<in> set ents
     \<and> LBDeodorizerLack 4 \<in> set ents \<and> LBBWastePresence 4 \<in> set ents"
proof -
  have "\<forall>(k, lb) \<in> set (litter_boxes home).
          \<exists>st. dict_getitem (LitterBox_device_detail lb) ''state'' = Inr (JDict st)"
    by (simp add: home_defs dict_getitem_def)
  from setup_entities [of home, THEN conjunct1, THEN mp, OF this] show ?thesis
  proof (elim exE conjE, goal_cases)
    case (1 ents)
    note at = "1"(3) [THEN spec]
    have "distinct ents"
      using "1"(2) by (simp add: home_def)
    moreover from at [of 1] have "WFWater 1 \<in> set ents" "WFPumpStatus 1 \<in> set ents"
      by (simp_all add: home_def home_fountain_def)
    moreover from at [of 2] have "FoodLevel 2 \<notin> set ents"
      by (simp add: home_def home_feeder_d4sh_def home_feeder_d3_def)
    moreover from at [of 3] have "FoodLevel 3 \<in> set ents"
      by (simp add: home_def home_feeder_d4sh_def home_feeder_d3_def)
    moreover from at [of 4]
    have "LBDeodorizerLack 4 \<in> set ents" "LBBWastePresence 4 \<in> set ents"
      by (simp_all add: home_def home_litter_box_def dict_getitem_def)
    ultimately show ?case using "1"(1) by simp
  qed
qed

section \<open>Unique ids\<close>

subsection \<open>The decimal rendering of an integer\<close>

lemma digit_char_code:
  assumes "d < 10"
  shows "of_char (digit_char d) = 48 + d"
proof -
  from assms have "d \<in> {0, 1, 2, 3, 4, 5, 6, 7, 8, 9}" by auto
  then show ?thesis
    unfolding digit_char_def by (elim insertE emptyE) simp_all
qed

lemma str_nat_nonempty: "str_nat n \<noteq> []"
  by (subst str_nat.simps) simp

lemma str_nat_digits:
  "c \<in> set (str_nat n) \<Longrightarrow> 48 \<le> (of_char c :: nat) \<and> (of_char c :: nat) \<le> 57"
proof (induction n rule: str_nat.induct)
  case (1 n)
  show ?case
  proof (cases "n < 10")
    case True
    with "1.prems" have "c = digit_char n" by (subst (asm) str_nat.simps) simp
    with True show ?thesis by (simp add: digit_char_code)
  next
    case False
    with "1.prems" have "c \<in> set (str_nat (n div 10)) \<or> c = digit_char (n mod 10)"
      by (subst (asm) str_nat.simps) auto
    then show ?thesis
    proof
      assume "c \<in> set (str_nat (n div 10))"
      with False "1.IH" show ?thesis by simp
    next
      assume "c = digit_char (n mod 10)"
      then show ?thesis by (simp add: digit_char_code)
    qed
  qed
qed

lemma str_nat_inj: "str_nat m = str_nat n \<Longrightarrow> m = n"
proof (induction m arbitrary: n rule: str_nat.induct)
  case (1 m)
  show ?case
  proof (cases "m < 10")
    case m: True
    show ?thesis
    proof (cases "n < 10")
      case True
      with m "1.prems" have "digit_char m = digit_char n"
        by (simp add: str_nat.simps [of m] str_nat.simps [of n])
      then have "(of_char (digit_char m) :: nat) = of_char (digit_char n)" by simp
      with m True show ?thesis by (simp add: digit_char_code)
    next
      case False
      with m "1.prems" have "[digit_char m] = str_nat (n div 10) @ [digit_char (n mod 10)]"
        by (simp add: str_nat.simps [of m] str_nat.simps [of n])
      then show ?thesis using str_nat_nonempty [of "n div 10"] by simp
    qed
  next
    case m: False
    show ?thesis
    proof (cases "n < 10")
      case True
      with m "1.prems" have "str_nat (m div 10) @ [digit_char (m mod 10)] = [digit_char n]"
        by (simp add: str_nat.simps [of m] str_nat.simps [of n])
      then show ?thesis using str_nat_nonempty [of "m div 10"] by simp
    next
      case False
      with m "1.prems"
      have eq: "str_nat (m div 10) = str_nat (n div 10)"
        and d: "digit_char (m mod 10) = digit_char (n mod 10)"
        by (simp_all add: str_nat.simps [of m] str_nat.simps [of n])
      from "1.IH" [OF m eq] have q: "m div 10 = n div 10" .
      from d have "(of_char (digit_char (m mod 10)) :: nat) = of_char (digit_char (n mod 10))"
        by simp
      then have r: "m mod 10 = n mod 10" by (simp add: digit_char_code)
      from q r show ?thesis by (metis div_mult_mod_eq)
    qed
  qed
qed

lemma str_int_inj: "str_int i = str_int j \<Longrightarrow> i = j"
proof -
  assume eq: "str_int i = str_int j"
  have no_minus: "str_nat n \<noteq> CHR ''-'' # s" for n s
  proof
    assume "str_nat n = CHR ''-'' # s"
    then have "CHR ''-'' \<in> set (str_nat n)" by simp
    from str_nat_digits [OF this] show False by simp
  qed
  show ?thesis
  proof (cases "i < 0")
    case i: True
    show ?thesis
    proof (cases "j < 0")
      case True
      with i eq have "str_nat (nat (- i)) = str_nat (nat (- j))" by (simp add: str_int_def)
      from str_nat_inj [OF this] i True show ?thesis by simp
    next
      case False
      with i eq have "str_nat (nat j) = CHR ''-'' # str_nat (nat (- i))"
        by (simp add: str_int_def)
      with no_minus show ?thesis by blast
    qed
  next
    case i: False
    show ?thesis
    proof (cases "j < 0")
      case True
      with i eq have "str_nat (nat i) = CHR ''-'' # str_nat (nat (- j))"
        by (simp add: str_int_def)
      with no_minus show ?thesis by blast
    next
      case False
      with i eq have "str_nat (nat i) = str_nat (nat j)" by (simp add: str_int_def)
      from str_nat_inj [OF this] i False show ?thesis by simp
    qed
  qed
qed

lemma str_int_no_underscore: "CHR ''_'' \<notin> set (str_int i)"
proof
  assume "CHR ''_'' \<in> set (str_int i)"
  then have "CHR ''_'' \<in> set (str_nat (nat (- i))) \<or> CHR ''_'' \<in> set (str_nat (nat i))"
    by (auto simp: str_int_def split: if_splits)
  then show False using str_nat_digits [of "CHR ''_''"] by auto
qed

subsection \<open>An id and a suffix determine the entity\<close>

lemma split_at_first:
  assumes "x \<notin> set xs" and "x \<notin> set xs'" and "xs @ x # ys = xs' @ x # ys'"
  shows "xs = xs' \<and> ys = ys'"
proof -
  have "takeWhile (\<lambda>c. c \<noteq> x) (xs @ x # ys) = xs"
    by (subst takeWhile_append2) (use assms(1) in auto)
  moreover have "takeWhile (\<lambda>c. c \<noteq> x) (xs' @ x # ys') = xs'"
    by (subst takeWhile_append2) (use assms(2) in auto)
  ultimately have "xs = xs'" using assms(3) by simp
  with assms(3) show ?thesis by simp
qed

lemma uid_suffix_underscore: "\<exists>r. uid_suffix e = CHR ''_'' # r"
  by (cases e) simp_all


lemma key_of_id:
  assumes "distinct (map (f \<circ> snd) xs)"
      and "map_of xs k = Some d" and "map_of xs k' = Some d'" and "f d = f d'"
  shows "k = k'"
proof -
  from assms(1) have "inj_on (f \<circ> snd) (set xs)" by (simp add: distinct_map)
  moreover from assms(2,3) have "(k, d) \<in> set xs" "(k', d') \<in> set xs"
    by (auto dest: map_of_SomeD)
  moreover from assms(4) have "(f \<circ> snd) (k, d) = (f \<circ> snd) (k', d')" by simp
  ultimately have "(k, d) = (k', d')" by (blast dest: inj_onD)
  then show ?thesis by simp
qed

lemma same_suffix_same_id:
  assumes "distinct (map (Fountain_id \<circ> snd) (water_fountains data))"
      and "distinct (map (Feeder_id \<circ> snd) (feeders data))"
      and "distinct (map (LitterBox_id \<circ> snd) (litter_boxes data))"
      and "uid_suffix e = uid_suffix e'"
      and "device_id data e = Inr i" and "device_id data e' = Inr i"
  shows "e = e'"
  using assms(4-6)
  apply (cases e; cases e'; simp)
  apply (auto elim!: bnd_InrE simp: wf_data_def feeder_data_def lb_data_def
      split: option.splits
      dest: key_of_id [OF assms(1)] key_of_id [OF assms(2)] key_of_id [OF assms(3)])
  done

subsection \<open>The entities of a call that returns\<close>

lemma in_created_litter_part:
  assumes "\<And>k lb. (k, lb) \<in> set xs \<Longrightarrow> \<exists>s. litter_box_sensors k lb = Inr s"
      and "e \<in> set (concat (map (\<lambda>(k, lb). projr (litter_box_sensors k lb)) xs))"
  shows "\<exists>k lb. (k, lb) \<in> set xs
           \<and> e \<in> {LBBinFull k, LBLitterLack k, LBDeodorizerLack k,
                   LBManuallyPaused k, LBBWastePresence k}"
proof -
  from assms(2) obtain k lb where in_xs: "(k, lb) \<in> set xs"
    and e: "e \<in> set (projr (litter_box_sensors k lb))"
    by auto
  from assms(1) [OF in_xs] obtain s where s: "litter_box_sensors k lb = Inr s" ..
  from litter_box_sensors_Inr(2) [OF s, of e] e s in_xs show ?thesis by auto
qed

lemma created_once:
  assumes keys: "distinct (map fst (water_fountains data))"
      "distinct (map fst (feeders data))" "distinct (map fst (litter_boxes data))"
    and run: "async_setup_entry data = Inr ents"
  shows "distinct ents"
proof -
  define A where "A = concat (map (\<lambda>(k, d). fountain_sensors k d) (water_fountains data))"
  define B where "B = concat (map (\<lambda>(k, d). feeder_sensors k d) (feeders data))"
  define C where
    "C = concat (map (\<lambda>(k, lb). projr (litter_box_sensors k lb)) (litter_boxes data))"
  note ok = setup_result(2) [OF run]
  have ents: "ents = A @ B @ C"
    using setup_result(1) [OF run] by (simp add: A_def B_def C_def)
  note inA = in_fountain_part [of _ "water_fountains data", folded A_def]
  note inB = in_feeder_part [of _ "feeders data", folded B_def]
  have inC: "\<exists>k lb. (k, lb) \<in> set (litter_boxes data)
           \<and> e \<in> {LBBinFull k, LBLitterLack k, LBDeodorizerLack k,
                   LBManuallyPaused k, LBBWastePresence k}" if "e \<in> set C" for e
    using in_created_litter_part [OF ok] that unfolding C_def by blast
  have "distinct A"
    unfolding A_def using keys(1)
    by (intro distinct_concat_keys) (auto simp: fountain_sensors_key)
  moreover have "distinct B"
    unfolding B_def using keys(2)
    by (intro distinct_concat_keys) (auto simp: feeder_sensors_key)
  moreover have "distinct C"
    unfolding C_def
  proof (rule distinct_concat_keys)
    show "distinct (map fst (litter_boxes data))" by (rule keys(3))
  next
    fix k d assume "(k, d) \<in> set (litter_boxes data)"
    from ok [OF this] show "distinct (projr (litter_box_sensors k d))"
      by (auto dest: litter_box_sensors_Inr(1))
  next
    fix k d e
    assume "(k, d) \<in> set (litter_boxes data)" and e: "e \<in> set (projr (litter_box_sensors k d))"
    from ok [OF this(1)] obtain s where s: "litter_box_sensors k d = Inr s" ..
    from litter_box_sensors_Inr(2) [OF s, of e] e s show "sensor_key e = k" by auto
  qed
  moreover note dC = this
  have kindA: "e \<in> range WFWater \<union> range WFElectricStatus \<union> range WFPumpStatus"
    if "e \<in> set A" for e
    using that by (auto simp: inA)
  have kindB: "e \<in> range FoodLevel \<union> range BatteryInstalled
      \<union> range FoodLevelHopper1 \<union> range FoodLevelHopper2 \<union> range CameraStatus
      \<union> range Eating \<union> range Feeding \<union> range CarePlusSubscription
      \<union> range BatteryCharging"
    if "e \<in> set B" for e
    using that by (auto simp: inB)
  have kindC: "e \<in> range LBBinFull \<union> range LBLitterLack \<union> range LBDeodorizerLack
      \<union> range LBManuallyPaused \<union> range LBBWastePresence"
    if "e \<in> set C" for e
    using inC [OF that] by auto
  note dC
  moreover have "set A \<inter> set B = {}"
    by (auto dest!: kindA kindB)
  moreover have "set A \<inter> set C = {}"
    by (auto dest!: kindA kindC)
  moreover have "set B \<inter> set C = {}"
    by (auto dest!: kindB kindC)
  ultimately show ?thesis unfolding ents by auto
qed

lemma created_has_device:
  assumes run: "async_setup_entry data = Inr ents" and e: "e \<in> set ents"
  shows "\<exists>i. device_id data e = Inr i"
proof -
  have present: "\<exists>d'. map_of xs k = Some d'" if "(k, d) \<in> set xs"
    for xs :: "(int \<times> 'a) list" and k d
    using that by (rule weak_map_of_SomeI)
  from e setup_result(1) [OF run]
  have "e \<in> set (concat (map (\<lambda>(k, d). fountain_sensors k d) (water_fountains data)))
    \<or> e \<in> set (concat (map (\<lambda>(k, d). feeder_sensors k d) (feeders data)))
    \<or> e \<in> set (concat (map (\<lambda>(k, lb). projr (litter_box_sensors k lb)) (litter_boxes data)))"
    by (simp only: set_append Un_iff)
  then consider "e \<in> set (concat (map (\<lambda>(k, d). fountain_sensors k d) (water_fountains data)))"
    | "e \<in> set (concat (map (\<lambda>(k, d). feeder_sensors k d) (feeders data)))"
    | "e \<in> set (concat (map (\<lambda>(k, lb). projr (litter_box_sensors k lb)) (litter_boxes data)))"
    by blast
  then show ?thesis
  proof cases
    case 1
    then obtain k d where "(k, d) \<in> set (water_fountains data)"
      and "e = WFWater k \<or> e = WFElectricStatus k \<or> e = WFPumpStatus k"
      unfolding in_fountain_part by blast
    with present [of k d "water_fountains data"] show ?thesis
      by (auto simp: wf_data_def)
  next
    case 2
    then obtain k d where "(k, d) \<in> set (feeders data)"
      and "e \<in> {FoodLevel k, BatteryInstalled k, FoodLevelHopper1 k, FoodLevelHopper2 k,
                 CameraStatus k, Eating k, Feeding k, CarePlusSubscription k,
                 BatteryCharging k}"
      unfolding in_feeder_part by blast
    with present [of k d "feeders data"] show ?thesis
      by (auto simp: feeder_data_def)
  next
    case 3
    from in_created_litter_part [OF setup_result(2) [OF run] 3]
    obtain k lb where "(k, lb) \<in> set (litter_boxes data)"
      and "e \<in> {LBBinFull k, LBLitterLack k, LBDeodorizerLack k,
                 LBManuallyPaused k, LBBWastePresence k}"
      by blast
    with present [of k lb "litter_boxes data"] show ?thesis
      by (auto simp: lb_data_def)
  qed
qed

text \<open>
  Claim C10. Let the \<open>id\<close> attributes of the devices be pairwise distinct within each
  of the three dictionaries of the coordinator data (whose keys are distinct, as the keys
  of a dictionary are). Then the entities created by one call of \<open>async_setup_entry\<close>
  have pairwise distinct unique ids: the unique id of each is \<open>str(id)\<close> of its device
  followed by the suffix of its class, and the suffixes of the entity classes are pairwise
  distinct. The file defines seventeen entity classes; the suffixes of all of them are
  covered.
\<close>

theorem unique_ids_distinct:
  assumes keys: "distinct (map fst (water_fountains data))"
      "distinct (map fst (feeders data))" "distinct (map fst (litter_boxes data))"
    and ids: "distinct (map (Fountain_id \<circ> snd) (water_fountains data))"
      "distinct (map (Feeder_id \<circ> snd) (feeders data))"
      "distinct (map (LitterBox_id \<circ> snd) (litter_boxes data))"
    and run: "async_setup_entry data = Inr ents"
  shows "(\<exists>uids. map (unique_id data) ents = map Inr uids \<and> distinct uids)
       \<and> (\<forall>e \<in> set ents. \<exists>i. device_id data e = Inr i
              \<and> unique_id data e = Inr (str_int i @ uid_suffix e))
       \<and> distinct (map uid_suffix
            [WFWater k, FoodLevel k, BatteryInstalled k, BatteryCharging k, LBBinFull k,
             LBLitterLack k, LBDeodorizerLack k, LBManuallyPaused k, FoodLevelHopper1 k,
             FoodLevelHopper2 k, CameraStatus k, Eating k, Feeding k, LBBWastePresence k,
             CarePlusSubscription k, WFElectricStatus k, WFPumpStatus k])"
proof (intro conjI)
  define uid where "uid e = str_int (projr (device_id data e)) @ uid_suffix e" for e
  have uid: "unique_id data e = Inr (uid e)" if "e \<in> set ents" for e
    using created_has_device [OF run that] by (auto simp: unique_id_def uid_def)
  have inj: "inj_on uid (set ents)"
  proof (rule inj_onI)
    fix e e' assume e: "e \<in> set ents" and e': "e' \<in> set ents" and eq: "uid e = uid e'"
    from created_has_device [OF run e] obtain i where i: "device_id data e = Inr i" ..
    from created_has_device [OF run e'] obtain i' where i': "device_id data e' = Inr i'" ..
    from uid_suffix_underscore obtain r where r: "uid_suffix e = CHR ''_'' # r" ..
    from uid_suffix_underscore obtain r' where r': "uid_suffix e' = CHR ''_'' # r'" ..
    from eq i i' r r' have "str_int i @ CHR ''_'' # r = str_int i' @ CHR ''_'' # r'"
      by (simp add: uid_def)
    then have "str_int i = str_int i' \<and> r = r'"
      by (rule split_at_first [OF str_int_no_underscore str_int_no_underscore])
    with r r' have "i = i'" and "uid_suffix e = uid_suffix e'"
      by (auto dest: str_int_inj)
    with i i' show "e = e'"
      using same_suffix_same_id [OF ids] by blast
  qed
  have "map (unique_id data) ents = map Inr (map uid ents)"
    by (simp add: uid)
  moreover have "distinct (map uid ents)"
    using created_once [OF keys run] inj by (simp add: distinct_map)
  ultimately show "\<exists>uids. map (unique_id data) ents = map Inr uids \<and> distinct uids"
    by blast
  show "\<forall>e \<in> set ents. \<exists>i. device_id data e = Inr i
              \<and> unique_id data e = Inr (str_int i @ uid_suffix e)"
  proof
    fix e assume "e \<in> set ents"
    from created_has_device [OF run this] obtain i where "device_id data e = Inr i" ..
    then show "\<exists>i. device_id data e = Inr i
              \<and> unique_id data e = Inr (str_int i @ uid_suffix e)"
      by (simp add: unique_id_def)
  qed
  show "distinct (map uid_suffix
            [WFWater k, FoodLevel k, BatteryInstalled k, BatteryCharging k, LBBinFull k,
             LBLitterLack k, LBDeodorizerLack k, LBManuallyPaused k, FoodLevelHopper1 k,
             FoodLevelHopper2 k, CameraStatus k, Eating k, Feeding k, LBBWastePresence k,
             CarePlusSubscription k, WFElectricStatus k, WFPumpStatus k])"
    by simp
qed


theorem unique_ids_distinct_witness:
  "\<exists>uids. map (unique_id home)
       [WFWater 1, WFElectricStatus 1, WFPumpStatus 1,
        BatteryInstalled 2, FoodLevelHopper1 2, FoodLevelHopper2 2, CameraStatus 2,
        Eating 2, Feeding 2, CarePlusSubscription 2,
        FoodLevel 3, BatteryCharging 3,
        LBBinFull 4, LBLitterLack 4, LBDeodorizerLack 4, LBManuallyPaused 4,
        LBBWastePresence 4] = map Inr uids
     \<and> distinct uids"
proof -
  have keys: "distinct (map fst (water_fountains home))"
    "distinct (map fst (feeders home))" "distinct (map fst (litter_boxes home))"
    by (simp_all add: home_def)
  have ids: "distinct (map (Fountain_id \<circ> snd) (water_fountains home))"
    "distinct (map (Feeder_id \<circ> snd) (feeders home))"
    "distinct (map (LitterBox_id \<circ> snd) (litter_boxes home))"
    by (simp_all add: home_defs)
  from unique_ids_distinct [OF keys ids setup_home] show ?thesis
    by (rule conjunct1)
qed

lemma unique_id_home_fountain:
  "unique_id home (WFWater 1) = Inr ''101_water_level''"
  by (simp add: unique_id_def lookups home_defs str_int_def str_nat.simps digit_char_def)

end
